theory Spec2Isabelle
  imports Complex_Main "HOL-Library.Word"
begin

section \<open>Data model\<close>

text \<open>
  The payload shapes are the interfaces of \<^verbatim>\<open>src/types/blockchain.ts\<close> together with the
  fields the backend routes add (\<^verbatim>\<open>status\<close>, \<^verbatim>\<open>warnings\<close>, \<^verbatim>\<open>history\<close>). JavaScript numbers
  are modelled by their exact values as \<^typ>\<open>real\<close>; strings are \<^typ>\<open>string\<close>.
  Field names carry a prefix naming their interface, since \<^verbatim>\<open>id\<close>, \<^verbatim>\<open>batchID\<close> and
  \<^verbatim>\<open>moisture\<close> occur in several of them.
\<close>

record GPSCoordinates =
  lat :: real
  lng :: real
  altitude :: "real option"

record CollectionEvent =
  ce_id :: string
  ce_species :: string
  ce_gps :: GPSCoordinates
  ce_timestamp :: string
  ce_moisture :: real
  ce_photo :: "string option"
  ce_farmerName :: string
  ce_farmerId :: string

text \<open>The entries of the \<^verbatim>\<open>warnings\<close> array of \<^verbatim>\<open>determineTestStatus\<close>; each carries the
  measured value that the message text interpolates.\<close>

datatype warning =
  PesticideExceeds "real option"
  | HeavyMetalsExceeds "real option"
  | MoistureOutside "real option"

record QualityTest =
  qt_id :: string
  qt_batchID :: string
  qt_dna :: string
  qt_pesticide :: real
  qt_moisture :: real
  qt_heavyMetals :: "real option"
  qt_labName :: string
  qt_labId :: string
  qt_testDate :: string
  qt_reportFile :: "string option"
  qt_verified :: bool
  qt_status :: "string option"
  qt_warnings :: "warning list"

record HistoryEntry =
  h_step :: string
  h_status :: string
  h_timestamp :: string
  h_notes :: string

record ProcessingStep =
  ps_id :: string
  ps_batchID :: string
  ps_drying :: string
  ps_grinding :: string
  ps_packaging :: string
  ps_processorName :: string
  ps_processorId :: string
  ps_processDate :: string
  ps_history :: "HistoryEntry list option"
  ps_lastUpdated :: "string option"
  ps_qrCode :: "string option"

text \<open>The \<^verbatim>\<open>data\<close> of a transaction is one of the three payloads, or the object of the
  genesis transaction (\<^verbatim>\<open>message\<close>, \<^verbatim>\<open>team\<close>, \<^verbatim>\<open>created\<close>).\<close>

datatype payload =
  CollectionData CollectionEvent
  | QualityData QualityTest
  | ProcessingData ProcessingStep
  | GenesisData string string string

text \<open>A transaction keeps \<^verbatim>\<open>type\<close> and \<^verbatim>\<open>data\<close> apart, as the code does: the validator is
  chosen by the \<^verbatim>\<open>type\<close> string, whatever the shape of \<^verbatim>\<open>data\<close>.\<close>

record BlockchainTransaction =
  tx_id :: string
  tx_type :: string
  tx_data :: payload
  tx_timestamp :: string
  tx_hash :: string
  tx_previousHash :: string
  tx_endorsements :: "string list option"

text \<open>Property reads on \<^verbatim>\<open>data\<close>: a property the object does not have reads as
  \<^verbatim>\<open>undefined\<close>, here \<^const>\<open>None\<close>.\<close>

fun data_id :: "payload \<Rightarrow> string option" where
  "data_id (CollectionData c) = Some (ce_id c)"
| "data_id (QualityData q) = Some (qt_id q)"
| "data_id (ProcessingData p) = Some (ps_id p)"
| "data_id (GenesisData m t c) = None"

fun data_batchID :: "payload \<Rightarrow> string option" where
  "data_batchID (QualityData q) = Some (qt_batchID q)"
| "data_batchID (ProcessingData p) = Some (ps_batchID p)"
| "data_batchID (CollectionData c) = None"
| "data_batchID (GenesisData m t c) = None"

fun data_pesticide :: "payload \<Rightarrow> real option" where
  "data_pesticide (QualityData q) = Some (qt_pesticide q)"
| "data_pesticide (CollectionData c) = None"
| "data_pesticide (ProcessingData p) = None"
| "data_pesticide (GenesisData m t c) = None"

fun data_heavyMetals :: "payload \<Rightarrow> real option" where
  "data_heavyMetals (QualityData q) = qt_heavyMetals q"
| "data_heavyMetals (CollectionData c) = None"
| "data_heavyMetals (ProcessingData p) = None"
| "data_heavyMetals (GenesisData m t c) = None"

fun data_moisture :: "payload \<Rightarrow> real option" where
  "data_moisture (QualityData q) = Some (qt_moisture q)"
| "data_moisture (CollectionData c) = Some (ce_moisture c)"
| "data_moisture (ProcessingData p) = None"
| "data_moisture (GenesisData m t c) = None"

text \<open>Comparisons of a possibly \<^verbatim>\<open>undefined\<close> number with a constant: \<^verbatim>\<open>undefined\<close>
  converts to NaN and every comparison with NaN is false.\<close>

fun js_gt :: "real option \<Rightarrow> real \<Rightarrow> bool" where
  "js_gt None c = False"
| "js_gt (Some v) c = (v > c)"

fun js_lt :: "real option \<Rightarrow> real \<Rightarrow> bool" where
  "js_lt None c = False"
| "js_lt (Some v) c = (v < c)"

text \<open>Truthiness of a possibly \<^verbatim>\<open>undefined\<close> number: \<^verbatim>\<open>undefined\<close> and 0 are falsy.\<close>

fun truthy_num :: "real option \<Rightarrow> bool" where
  "truthy_num None = False"
| "truthy_num (Some v) = (v \<noteq> 0)"

section \<open>The runtime the service calls into\<close>

text \<open>
  SHA-256 (\<^verbatim>\<open>crypto.createHash\<close>), \<^verbatim>\<open>JSON.stringify\<close>, the month of a parsed date
  (\<^verbatim>\<open>new Date(timestamp).getMonth()\<close>, 0 to 11, \<^const>\<open>None\<close> for an invalid date) and Joi's
  \<^verbatim>\<open>isoDate\<close> test are library code; the model takes them as parameters, together with
  the environment variable \<^verbatim>\<open>API_BASE_URL\<close>.
\<close>

record runtime =
  sha256 :: "string \<Rightarrow> string"
  stringify :: "payload \<Rightarrow> string"
  getMonth :: "string \<Rightarrow> nat option"
  isoDate :: "string \<Rightarrow> bool"
  API_BASE_URL :: "string option"

text \<open>What one call reads from its environment: the generated transaction id
  (\<^verbatim>\<open>generateTransactionId\<close>: clock and random digits), the clock, and the outcome of
  \<^verbatim>\<open>fs.writeFile\<close> (\<^const>\<open>None\<close> when it succeeds, else the message of the error it raises).\<close>

record call_env =
  env_txId :: string
  env_now :: string
  env_write_error :: "string option"

section \<open>Backend ledger service (\<^verbatim>\<open>BlockchainService\<close>)\<close>

text \<open>
  The state of the service: the in-memory list \<^verbatim>\<open>this.ledger.transactions\<close> and the
  transactions in the ledger file (\<^const>\<open>None\<close> while there is no readable file). The
  \<^verbatim>\<open>blocks\<close> and \<^verbatim>\<open>metadata\<close> members of the ledger object are written once by the
  constructor and read by no operation; they are left out.
\<close>

record service =
  transactions :: "BlockchainTransaction list"
  ledger_file :: "BlockchainTransaction list option"

text \<open>The two ways a call raises: an \<^verbatim>\<open>Error\<close> the service throws itself, and an error
  of the file system.\<close>

datatype error = Error string | StorageError string

record validation =
  valid :: bool
  reason :: "string option"

record submit_result =
  transactionId :: string
  status :: string
  hash :: string
  timestamp :: string

definition ZERO_HASH :: string where
  "ZERO_HASH = ''0x0000000000000000000000000000000000000000000000000000000000000000''"

definition getLastTransactionHash :: "service \<Rightarrow> string" where
  "getLastTransactionHash s =
     (if length (transactions s) = 0 then ZERO_HASH
      else tx_hash (transactions s ! (length (transactions s) - 1)))"

definition calculateHash :: "runtime \<Rightarrow> string \<Rightarrow> string" where
  "calculateHash rt d = sha256 rt d"

text \<open>\<^verbatim>\<open>saveLedger\<close> writes the whole ledger object to the file. A failed write raises;
  the model leaves the file as it was in that case.\<close>

definition saveLedger :: "call_env \<Rightarrow> service \<Rightarrow> error + service" where
  "saveLedger e s =
     (case env_write_error e of
        None \<Rightarrow> Inr (s\<lparr>ledger_file := Some (transactions s)\<rparr>)
      | Some m \<Rightarrow> Inl (StorageError m))"

definition createGenesisBlock :: "runtime \<Rightarrow> call_env \<Rightarrow> service \<Rightarrow> service" where
  "createGenesisBlock rt e s =
     (let genesisTransaction =
        \<lparr>tx_id = ''tx_genesis_000'',
         tx_type = ''genesis'',
         tx_data = GenesisData ''SIH25027 Traceability Chain Genesis Block'' ''Team Hackon'' (env_now e),
         tx_timestamp = env_now e,
         tx_hash = calculateHash rt ''genesis_block_sih25027'',
         tx_previousHash = ZERO_HASH,
         tx_endorsements = None\<rparr>
      in s\<lparr>transactions := transactions s @ [genesisTransaction]\<rparr>)"

text \<open>\<^verbatim>\<open>initialize\<close>: load the ledger file when it can be read and parsed, else create the
  genesis transaction and save.\<close>

definition initialize :: "runtime \<Rightarrow> call_env \<Rightarrow> service \<Rightarrow> (error + unit) \<times> service" where
  "initialize rt e s =
     (case ledger_file s of
        Some txs \<Rightarrow> (Inr (), s\<lparr>transactions := txs\<rparr>)
      | None \<Rightarrow>
          (let s1 = createGenesisBlock rt e s in
           case saveLedger e s1 of
             Inl err \<Rightarrow> (Inl err, s1)
           | Inr s2 \<Rightarrow> (Inr (), s2)))"

text \<open>The object the constructor builds: an empty transaction list; no ledger file yet.\<close>

definition constructed :: service where
  "constructed = \<lparr>transactions = [], ledger_file = None\<rparr>"

subsection \<open>Smart-contract rules\<close>

text \<open>ASCII model of \<^verbatim>\<open>String.prototype.toLowerCase\<close> and \<^verbatim>\<open>includes\<close>.\<close>

definition lower_char :: "char \<Rightarrow> char" where
  "lower_char c =
     (let n = (of_char c :: nat) in if 65 \<le> n \<and> n \<le> 90 then char_of (n + 32) else c)"

definition toLowerCase :: "string \<Rightarrow> string" where
  "toLowerCase s = map lower_char s"

fun startsWith :: "string \<Rightarrow> string \<Rightarrow> bool" where
  "startsWith s [] = True"
| "startsWith [] (p # ps) = False"
| "startsWith (c # cs) (p # ps) = (c = p \<and> startsWith cs ps)"

fun includes_str :: "string \<Rightarrow> string \<Rightarrow> bool" where
  "includes_str [] p = (p = [])"
| "includes_str (c # cs) p = (startsWith (c # cs) p \<or> includes_str cs p)"

text \<open>The lines \<^verbatim>\<open>validateCollectionEvent\<close> prints with \<^verbatim>\<open>console.log\<close>.\<close>

datatype console_line =
  GeoFenceFailed string
  | GeoFencePassed string
  | SeasonWarning string "nat option"
  | SeasonPassed string

text \<open>\<^verbatim>\<open>month >= 10 || month <= 2\<close>, where \<^verbatim>\<open>month\<close> is \<^verbatim>\<open>getMonth() + 1\<close> and NaN for an
  invalid date.\<close>

fun isValidSeason :: "nat option \<Rightarrow> bool" where
  "isValidSeason None = False"
| "isValidSeason (Some m) = (m + 1 \<ge> 10 \<or> m + 1 \<le> 2)"

definition validateCollectionEvent ::
  "runtime \<Rightarrow> CollectionEvent \<Rightarrow> console_line list \<times> validation" where
  "validateCollectionEvent rt d =
     (let species = ce_species d; gps = ce_gps d; ts = ce_timestamp d;
          ash = includes_str (toLowerCase species) ''ashwagandha'';
          isValidLocation = (lat gps \<ge> 24.0 \<and> lat gps \<le> 30.0 \<and> lng gps \<ge> 69.0 \<and> lng gps \<le> 78.0)
      in if ash \<and> \<not> isValidLocation
         then ([GeoFenceFailed species],
               \<lparr>valid = False,
                reason = Some ''GPS coordinates outside valid cultivation region for Ashwagandha''\<rparr>)
         else ((if ash then [GeoFencePassed species] else []) @
               (if ash
                then (if \<not> isValidSeason (getMonth rt ts)
                      then [SeasonWarning species (map_option Suc (getMonth rt ts))]
                      else [SeasonPassed species])
                else []),
               \<lparr>valid = True, reason = None\<rparr>))"

definition validateQualityTest :: "payload \<Rightarrow> validation" where
  "validateQualityTest d =
     (let pesticide = data_pesticide d; heavyMetals = data_heavyMetals d; moisture = data_moisture d
      in if js_gt pesticide 0.1
         then \<lparr>valid = False, reason = Some ''Pesticide level exceeds WHO limit (0.1 ppm)''\<rparr>
         else if truthy_num heavyMetals \<and> js_gt heavyMetals 0.05
         then \<lparr>valid = False, reason = Some ''Heavy metals level exceeds WHO limit (0.05 ppm)''\<rparr>
         else if js_lt moisture 8 \<or> js_gt moisture 20
         then \<lparr>valid = False, reason = Some ''Moisture content outside acceptable range (8-20%)''\<rparr>
         else \<lparr>valid = True, reason = None\<rparr>)"

definition validateProcessingStep :: "service \<Rightarrow> payload \<Rightarrow> validation" where
  "validateProcessingStep s d =
     (let batchID = data_batchID d;
          qualityTest = find (\<lambda>tx. tx_type tx = ''quality_test'' \<and> data_batchID (tx_data tx) = batchID)
                          (transactions s)
      in case qualityTest of
           None \<Rightarrow> \<lparr>valid = False, reason = Some ''Cannot process batch without quality verification''\<rparr>
         | Some q \<Rightarrow> \<lparr>valid = True, reason = None\<rparr>)"

text \<open>
  \<^verbatim>\<open>validateTransaction\<close> dispatches on the \<^verbatim>\<open>type\<close> string and turns an exception of a
  validator into an invalid result. The only exception the validators can raise on the
  payloads above is the TypeError of \<^verbatim>\<open>species.toLowerCase()\<close> when \<^verbatim>\<open>data\<close> is not a
  collection event and so has no \<^verbatim>\<open>species\<close>.
\<close>

definition TYPE_ERROR_MESSAGE :: string where
  "TYPE_ERROR_MESSAGE =
     ''Cannot read properties of undefined (reading '' @ [CHR 0x27] @ ''toLowerCase'' @ [CHR 0x27] @ '')''"

definition validateTransaction :: "runtime \<Rightarrow> service \<Rightarrow> BlockchainTransaction \<Rightarrow> validation" where
  "validateTransaction rt s tx =
     (if tx_type tx = ''collection'' then
        (case tx_data tx of
           CollectionData c \<Rightarrow> snd (validateCollectionEvent rt c)
         | _ \<Rightarrow> \<lparr>valid = False,
                 reason = Some TYPE_ERROR_MESSAGE\<rparr>)
      else if tx_type tx = ''quality_test'' then validateQualityTest (tx_data tx)
      else if tx_type tx = ''processing'' then validateProcessingStep s (tx_data tx)
      else \<lparr>valid = True, reason = None\<rparr>)"

subsection \<open>Submission\<close>

definition reason_text :: "string option \<Rightarrow> string" where
  "reason_text r = (case r of None \<Rightarrow> ''undefined'' | Some m \<Rightarrow> m)"

text \<open>The transaction object that \<^verbatim>\<open>submitTransaction\<close> creates before it validates.\<close>

definition newTransaction ::
  "runtime \<Rightarrow> call_env \<Rightarrow> string \<Rightarrow> payload \<Rightarrow> string list \<Rightarrow> service \<Rightarrow> BlockchainTransaction" where
  "newTransaction rt e ty d endorsements s =
     (let txId = env_txId e in
      \<lparr>tx_id = txId,
       tx_type = ty,
       tx_data = d,
       tx_timestamp = env_now e,
       tx_hash = calculateHash rt (stringify rt d @ txId),
       tx_previousHash = getLastTransactionHash s,
       tx_endorsements = Some endorsements\<rparr>)"

definition submitTransaction ::
  "runtime \<Rightarrow> call_env \<Rightarrow> string \<Rightarrow> payload \<Rightarrow> string list \<Rightarrow> service
     \<Rightarrow> (error + submit_result) \<times> service" where
  "submitTransaction rt e ty d endorsements s =
     (let transaction = newTransaction rt e ty d endorsements s;
          validation = validateTransaction rt s transaction
      in if \<not> valid validation
         then (Inl (Error (''Transaction validation failed: '' @ reason_text (reason validation))), s)
         else
           (let s1 = s\<lparr>transactions := transactions s @ [transaction]\<rparr> in
            case saveLedger e s1 of
              Inl err \<Rightarrow> (Inl err, s1)
            | Inr s2 \<Rightarrow>
                (Inr \<lparr>transactionId = tx_id transaction, status = ''COMMITTED'',
                      hash = tx_hash transaction, timestamp = tx_timestamp transaction\<rparr>, s2)))"

text \<open>
  The states of the service: the freshly initialised ledger (no ledger file found), and
  whatever a call of \<^verbatim>\<open>submitTransaction\<close> leaves behind. Every call is a step, also one
  that raises; the successful calls are among them.
\<close>

inductive reachable :: "runtime \<Rightarrow> service \<Rightarrow> bool" for rt :: runtime where
  fresh: "reachable rt (snd (initialize rt e constructed))"
| submit: "reachable rt s \<Longrightarrow> reachable rt (snd (submitTransaction rt e ty d en s))"

subsection \<open>Provenance query\<close>

text \<open>The bundle of the backend \<^verbatim>\<open>getProvenance\<close>; \<^verbatim>\<open>farmer\<close>, \<^verbatim>\<open>lab\<close> and \<^verbatim>\<open>processor\<close> are
  the \<^verbatim>\<open>data\<close> of the selected transactions, or \<^verbatim>\<open>null\<close>.\<close>

record ProvenanceBundle =
  pb_batchID :: string
  pb_farmer :: "payload option"
  pb_lab :: "payload option"
  pb_processor :: "payload option"
  pb_qrCode :: string
  pb_isVerified :: bool
  pb_lastUpdated :: string
  pb_blockchainHash :: "string option"
  pb_transactionCount :: nat

definition generateQRData :: "runtime \<Rightarrow> string \<Rightarrow> string" where
  "generateQRData rt batchID =
     (let baseUrl = (case API_BASE_URL rt of
                       None \<Rightarrow> ''http://localhost:5000''
                     | Some u \<Rightarrow> if u = [] then ''http://localhost:5000'' else u)
      in baseUrl @ ''/api/customer/batch/'' @ batchID)"

definition getProvenance :: "runtime \<Rightarrow> string \<Rightarrow> service \<Rightarrow> string \<Rightarrow> ProvenanceBundle option" where
  "getProvenance rt now s batchID =
     (let txs = filter (\<lambda>tx. if tx_type tx = ''collection''
                             then data_id (tx_data tx) = Some batchID
                             else data_batchID (tx_data tx) = Some batchID)
                  (transactions s)
      in if length txs = 0 then None
         else
           (let collectionTx = find (\<lambda>tx. tx_type tx = ''collection'') txs;
                qualityTx = find (\<lambda>tx. tx_type tx = ''quality_test'') txs;
                processingTx = find (\<lambda>tx. tx_type tx = ''processing'') txs
            in Some \<lparr>pb_batchID = batchID,
                     pb_farmer = map_option tx_data collectionTx,
                     pb_lab = map_option tx_data qualityTx,
                     pb_processor = map_option tx_data processingTx,
                     pb_qrCode = generateQRData rt batchID,
                     pb_isVerified = (qualityTx \<noteq> None \<and> processingTx \<noteq> None),
                     pb_lastUpdated = now,
                     pb_blockchainHash = map_option tx_hash collectionTx,
                     pb_transactionCount = length txs\<rparr>))"

section \<open>Backend routes\<close>

record http_response =
  http_status :: nat
  http_success :: bool
  http_error :: "string option"
  http_message :: "string option"

definition error_message :: "error \<Rightarrow> string" where
  "error_message err = (case err of Error m \<Rightarrow> m | StorageError m \<Rightarrow> m)"

text \<open>The pattern \<^verbatim>\<open>/^BATCH_[A-Z0-9_]+$/\<close> of the Joi schemas.\<close>

definition batchChar :: "char \<Rightarrow> bool" where
  "batchChar c =
     (let n = (of_char c :: nat) in (65 \<le> n \<and> n \<le> 90) \<or> (48 \<le> n \<and> n \<le> 57) \<or> n = 95)"

definition isBatchID :: "string \<Rightarrow> bool" where
  "isBatchID b = (startsWith b ''BATCH_'' \<and> drop 6 b \<noteq> [] \<and> list_all batchChar (drop 6 b))"

text \<open>A Joi string of length between two bounds; Joi strings are never empty.\<close>

definition joiString :: "nat \<Rightarrow> nat \<Rightarrow> string \<Rightarrow> bool" where
  "joiString lo hi x = (x \<noteq> [] \<and> lo \<le> length x \<and> length x \<le> hi)"

subsection \<open>Lab: \<^verbatim>\<open>POST /api/lab/upload\<close>\<close>

record TestStatus =
  ts_passed :: bool
  ts_status :: string
  ts_warnings :: "warning list"

text \<open>
  \<^verbatim>\<open>determineTestStatus(testData)\<close>; the three arguments are the properties
  \<^verbatim>\<open>pesticide\<close>, \<^verbatim>\<open>heavyMetals\<close> and \<^verbatim>\<open>moisture\<close> that its first line takes out of
  \<^verbatim>\<open>testData\<close>. The limits are those of its \<^verbatim>\<open>standards\<close> table.
\<close>

definition determineTestStatus :: "real option \<Rightarrow> real option \<Rightarrow> real option \<Rightarrow> TestStatus" where
  "determineTestStatus pesticide heavyMetals moisture =
     (let (warnings1, passed1) =
            (if js_gt pesticide 0.1 then ([PesticideExceeds pesticide], False) else ([], True));
          (warnings2, passed2) =
            (if js_gt heavyMetals 0.05 then (warnings1 @ [HeavyMetalsExceeds heavyMetals], False)
             else (warnings1, passed1));
          (warnings3, passed3) =
            (if js_lt moisture 8 \<or> js_gt moisture 20
             then (warnings2 @ [MoistureOutside moisture],
                   if js_lt moisture 5 \<or> js_gt moisture 25 then False else passed2)
             else (warnings2, passed2));
          status = (if passed3 \<and> length warnings3 = 0 then ''PASSED''
                    else if passed3 \<and> length warnings3 > 0 then ''PASSED_WITH_WARNINGS''
                    else ''FAILED'')
      in \<lparr>ts_passed = passed3, ts_status = status, ts_warnings = warnings3\<rparr>)"

text \<open>The derived status of the \<^verbatim>\<open>data\<close> of a stored transaction.\<close>

definition derivedStatus :: "payload \<Rightarrow> TestStatus" where
  "derivedStatus d = determineTestStatus (data_pesticide d) (data_heavyMetals d) (data_moisture d)"

text \<open>The request body as \<^verbatim>\<open>qualityTestSchema\<close> types it, with the name of the uploaded
  report file, if there is one.\<close>

record QualityTestRequest =
  rq_batchID :: string
  rq_dna :: string
  rq_pesticide :: real
  rq_moisture :: real
  rq_heavyMetals :: "real option"
  rq_labName :: string
  rq_labId :: string
  rq_testDate :: "string option"
  rq_notes :: "string option"
  rq_report :: "string option"

definition qualityTestSchema :: "runtime \<Rightarrow> QualityTestRequest \<Rightarrow> bool" where
  "qualityTestSchema rt r =
     (isBatchID (rq_batchID r) \<and>
      joiString 10 1000 (rq_dna r) \<and>
      0 \<le> rq_pesticide r \<and> rq_pesticide r \<le> 10 \<and>
      0 \<le> rq_moisture r \<and> rq_moisture r \<le> 100 \<and>
      (case rq_heavyMetals r of None \<Rightarrow> True | Some h \<Rightarrow> 0 \<le> h \<and> h \<le> 1) \<and>
      joiString 5 200 (rq_labName r) \<and>
      joiString 3 50 (rq_labId r) \<and>
      (case rq_testDate r of None \<Rightarrow> True | Some t \<Rightarrow> t \<noteq> [] \<and> isoDate rt t) \<and>
      (case rq_notes r of None \<Rightarrow> True | Some n \<Rightarrow> joiString 0 500 n))"

definition NOT_FOUND :: http_response where
  "NOT_FOUND = \<lparr>http_status = 404, http_success = False, http_error = Some ''Batch not found'',
                 http_message = None\<rparr>"

definition lab_upload ::
  "runtime \<Rightarrow> call_env \<Rightarrow> string \<Rightarrow> QualityTestRequest \<Rightarrow> service \<Rightarrow> http_response \<times> service" where
  "lab_upload rt e testID r s =
     (if \<not> qualityTestSchema rt r
      then (\<lparr>http_status = 400, http_success = False, http_error = Some ''Validation failed'',
              http_message = None\<rparr>, s)
      else
        (let provenance = getProvenance rt (env_now e) s (rq_batchID r) in
         if provenance = None \<or> pb_farmer (the provenance) = None
         then (NOT_FOUND\<lparr>http_message :=
                 Some (''No collection event found for batch '' @ rq_batchID r)\<rparr>, s)
         else
           (let testStatus =
                  determineTestStatus (Some (rq_pesticide r)) (rq_heavyMetals r) (Some (rq_moisture r));
                qualityTest =
                  \<lparr>qt_id = testID,
                   qt_batchID = rq_batchID r,
                   qt_dna = rq_dna r,
                   qt_pesticide = rq_pesticide r,
                   qt_moisture = rq_moisture r,
                   qt_heavyMetals =
                     Some (case rq_heavyMetals r of None \<Rightarrow> 0 | Some h \<Rightarrow> h),
                   qt_labName = rq_labName r,
                   qt_labId = rq_labId r,
                   qt_testDate = (case rq_testDate r of None \<Rightarrow> env_now e | Some t \<Rightarrow> t),
                   qt_reportFile = map_option (\<lambda>f. ''/uploads/reports/'' @ f) (rq_report r),
                   qt_verified = ts_passed testStatus,
                   qt_status = Some (ts_status testStatus),
                   qt_warnings = ts_warnings testStatus\<rparr>
            in case submitTransaction rt e ''quality_test'' (QualityData qualityTest) [] s of
                 (Inl err, s1) \<Rightarrow>
                   (\<lparr>http_status = 500, http_success = False,
                     http_error = Some ''Failed to submit quality test'',
                     http_message = Some (error_message err)\<rparr>, s1)
               | (Inr txResult, s1) \<Rightarrow>
                   (\<lparr>http_status = 201, http_success = True, http_error = None,
                     http_message = Some ''Quality test results recorded on blockchain''\<rparr>, s1))))"


subsection \<open>Processor: \<^verbatim>\<open>POST /api/processor/update-status\<close>\<close>

record UpdateStatusRequest =
  us_batchID :: string
  us_step :: string
  us_status :: string
  us_processorId :: string
  us_processorName :: string
  us_notes :: "string option"

definition updateStatusSchema :: "UpdateStatusRequest \<Rightarrow> bool" where
  "updateStatusSchema r =
     (isBatchID (us_batchID r) \<and>
      us_step r \<in> set [''drying'', ''grinding'', ''packaging''] \<and>
      us_status r \<in> set [''in-progress'', ''completed''] \<and>
      us_processorId r \<noteq> [] \<and>
      us_processorName r \<noteq> [] \<and>
      (case us_notes r of None \<Rightarrow> True | Some n \<Rightarrow> joiString 0 500 n))"

text \<open>\<^verbatim>\<open>provenance.lab?.verified\<close>, read for its truth value.\<close>

fun lab_verified :: "payload option \<Rightarrow> bool" where
  "lab_verified (Some (QualityData q)) = qt_verified q"
| "lab_verified _ = False"

text \<open>\<^verbatim>\<open>processingStep[name]\<close> for a stage name, and the assignment
  \<^verbatim>\<open>processingStep[step] = status\<close>.\<close>

fun data_stage :: "payload \<Rightarrow> string \<Rightarrow> string option" where
  "data_stage (ProcessingData p) name =
     (if name = ''drying'' then Some (ps_drying p)
      else if name = ''grinding'' then Some (ps_grinding p)
      else if name = ''packaging'' then Some (ps_packaging p)
      else None)"
| "data_stage (CollectionData c) name = None"
| "data_stage (QualityData q) name = None"
| "data_stage (GenesisData m t c) name = None"

definition set_stage :: "ProcessingStep \<Rightarrow> string \<Rightarrow> string \<Rightarrow> ProcessingStep" where
  "set_stage p name v =
     (if name = ''drying'' then p\<lparr>ps_drying := v\<rparr>
      else if name = ''grinding'' then p\<lparr>ps_grinding := v\<rparr>
      else if name = ''packaging'' then p\<lparr>ps_packaging := v\<rparr>
      else p)"

text \<open>\<^verbatim>\<open>Array.prototype.indexOf\<close>: the first position of the element, or -1.\<close>

fun indexOf :: "string list \<Rightarrow> string \<Rightarrow> int" where
  "indexOf [] x = -1"
| "indexOf (y # ys) x = (if y = x then 0 else (let i = indexOf ys x in if i < 0 then -1 else i + 1))"

definition stepOrder :: "string list" where
  "stepOrder = [''drying'', ''grinding'', ''packaging'']"

fun update_first :: "('a \<Rightarrow> bool) \<Rightarrow> ('a \<Rightarrow> 'a) \<Rightarrow> 'a list \<Rightarrow> 'a list" where
  "update_first P f [] = []"
| "update_first P f (x # xs) = (if P x then f x # xs else x # update_first P f xs)"

definition BAD_REQUEST :: "string \<Rightarrow> http_response" where
  "BAD_REQUEST m = \<lparr>http_status = 400, http_success = False, http_error = Some m,
                    http_message = None\<rparr>"

text \<open>The processing record the handler creates for a batch that has none: every stage
  \<^verbatim>\<open>pending\<close>, an empty history, and a generated id.\<close>

definition freshProcessing :: "call_env \<Rightarrow> string \<Rightarrow> UpdateStatusRequest \<Rightarrow> ProcessingStep" where
  "freshProcessing e procID r =
     \<lparr>ps_id = procID, ps_batchID = us_batchID r, ps_drying = ''pending'',
      ps_grinding = ''pending'', ps_packaging = ''pending'',
      ps_processorName = us_processorName r,
      ps_processorId = us_processorId r,
      ps_processDate = env_now e, ps_history = Some [],
      ps_lastUpdated = None, ps_qrCode = None\<rparr>"

text \<open>
  The handler of \<^verbatim>\<open>update-status\<close>. Its gates answer without touching the ledger. Past
  the gates it assigns to \<^verbatim>\<open>processingStep\<close>, which is the very \<^verbatim>\<open>data\<close> object of the
  transaction that \<^verbatim>\<open>getProvenance\<close> took \<^verbatim>\<open>processor\<close> from whenever there is one: the
  assignment changes that committed transaction in place, and the model writes the new
  value into it before the submission. Payloads are values here, so further
  transactions that hold the same object (those of earlier updates of the batch in the
  same process) keep their old value in the model. The result is \<^const>\<open>None\<close> in the one
  case the payload type cannot express: \<^verbatim>\<open>processor\<close> is the \<^verbatim>\<open>data\<close> of a transaction of
  type \<^verbatim>\<open>processing\<close> that is not a processing step, and the assignment would add a stage
  property to it.
\<close>

definition update_status ::
  "runtime \<Rightarrow> call_env \<Rightarrow> string \<Rightarrow> UpdateStatusRequest \<Rightarrow> service
     \<Rightarrow> (http_response \<times> service) option" where
  "update_status rt e procID r s =
     (if \<not> updateStatusSchema r then Some (BAD_REQUEST ''Validation failed'', s)
      else
        (let batchID = us_batchID r; step = us_step r; status' = us_status r in
         case getProvenance rt (env_now e) s batchID of
           None \<Rightarrow> Some (NOT_FOUND, s)
         | Some provenance \<Rightarrow>
             if \<not> lab_verified (pb_lab provenance)
             then Some (BAD_REQUEST ''Cannot process batch without quality verification'', s)
             else
               (let processingStep =
                      (case pb_processor provenance of
                         Some d \<Rightarrow> d
                       | None \<Rightarrow> ProcessingData (freshProcessing e procID r));
                    currentStepIndex = indexOf stepOrder step;
                    previousStep = stepOrder ! nat (currentStepIndex - 1)
                in if currentStepIndex > 0 \<and> data_stage processingStep previousStep \<noteq> Some ''completed''
                   then Some (BAD_REQUEST (''Cannot start '' @ step @ '' before completing '' @ previousStep), s)
                   else
                     (case processingStep of
                        ProcessingData p \<Rightarrow>
                          (let p1 = (set_stage p step status')\<lparr>ps_lastUpdated := Some (env_now e)\<rparr>;
                               p2 = p1\<lparr>ps_history :=
                                         Some ((case ps_history p1 of None \<Rightarrow> [] | Some h \<Rightarrow> h) @
                                               [\<lparr>h_step = step, h_status = status',
                                                 h_timestamp = env_now e,
                                                 h_notes = (case us_notes r of None \<Rightarrow> [] | Some n \<Rightarrow> n)\<rparr>])\<rparr>;
                               s1 = s\<lparr>transactions :=
                                        update_first
                                          (\<lambda>tx. tx_type tx = ''processing'' \<and>
                                                data_batchID (tx_data tx) = Some batchID)
                                          (\<lambda>tx. tx\<lparr>tx_data := ProcessingData p2\<rparr>)
                                          (transactions s)\<rparr>
                           in case submitTransaction rt e ''processing'' (ProcessingData p2) [] s1 of
                                (Inl err, s2) \<Rightarrow>
                                  Some (\<lparr>http_status = 500, http_success = False,
                                          http_error = Some ''Failed to update processing status'',
                                          http_message = Some (error_message err)\<rparr>, s2)
                              | (Inr txResult, s2) \<Rightarrow>
                                  Some (\<lparr>http_status = 200, http_success = True, http_error = None,
                                          http_message =
                                            Some (''Processing step '' @ step @ '' marked as '' @ status')\<rparr>,
                                        s2))
                      | _ \<Rightarrow> None))))"

section \<open>Frontend simulation service (\<^verbatim>\<open>BlockchainSimulationService\<close>)\<close>

text \<open>\<^verbatim>\<open>BlockchainState\<close>; its \<^verbatim>\<open>blocks\<close> stay empty and are left out.\<close>

record BlockchainState =
  state_transactions :: "BlockchainTransaction list"

text \<open>
  \<^verbatim>\<open>generateHash\<close>: the loop keeps a 32-bit integer (\<^verbatim>\<open>hash & hash\<close>), so it is word
  arithmetic; the result is the absolute value of the signed reading, in hexadecimal.
  Characters are the code units of an ASCII string.
\<close>

fun hashLoop :: "32 word \<Rightarrow> string \<Rightarrow> 32 word" where
  "hashLoop h [] = h"
| "hashLoop h (c # cs) = hashLoop ((push_bit 5 h - h) + of_nat (of_char c)) cs"

definition hexDigit :: "nat \<Rightarrow> char" where
  "hexDigit n = ''0123456789abcdef'' ! n"

fun toString16 :: "nat \<Rightarrow> string" where
  "toString16 n = (if n < 16 then [hexDigit n] else toString16 (n div 16) @ [hexDigit (n mod 16)])"

definition generateHash :: "string \<Rightarrow> string" where
  "generateHash d = toString16 (nat \<bar>sint (hashLoop 0 d)\<bar>)"

definition fe_getLastTransactionHash :: "BlockchainState \<Rightarrow> string" where
  "fe_getLastTransactionHash st =
     (if length (state_transactions st) > 0
      then tx_hash (state_transactions st ! (length (state_transactions st) - 1))
      else ''0x000'')"

text \<open>\<^verbatim>\<open>submitTransaction\<close> of the frontend service: the generated id and the clock come
  from the environment; the result is the id and the new state.\<close>

definition fe_submitTransaction ::
  "runtime \<Rightarrow> string \<Rightarrow> string \<Rightarrow> string \<Rightarrow> payload \<Rightarrow> BlockchainState \<Rightarrow> string \<times> BlockchainState" where
  "fe_submitTransaction rt txId now ty d st =
     (let transaction =
            \<lparr>tx_id = txId, tx_type = ty, tx_data = d, tx_timestamp = now,
             tx_hash = generateHash (stringify rt d),
             tx_previousHash = fe_getLastTransactionHash st,
             tx_endorsements = None\<rparr>
      in (tx_id transaction,
          st\<lparr>state_transactions := state_transactions st @ [transaction]\<rparr>))"

record FrontendBundle =
  fb_batchID :: string
  fb_farmer :: payload
  fb_lab :: "payload option"
  fb_processor :: "payload option"
  fb_qrCode :: string
  fb_isVerified :: bool
  fb_lastUpdated :: string

text \<open>\<^verbatim>\<open>getProvenance\<close> of the frontend service; \<^verbatim>\<open>millis\<close> is \<^verbatim>\<open>Date.now()\<close> as printed
  into the QR data.\<close>

definition fe_getProvenance ::
  "string \<Rightarrow> string \<Rightarrow> BlockchainState \<Rightarrow> string \<Rightarrow> FrontendBundle option" where
  "fe_getProvenance now millis st batchID =
     (let collectionTx = find (\<lambda>tx. tx_type tx = ''collection'' \<and> data_id (tx_data tx) = Some batchID)
                           (state_transactions st);
          qualityTx = find (\<lambda>tx. tx_type tx = ''quality_test'' \<and> data_batchID (tx_data tx) = Some batchID)
                        (state_transactions st);
          processingTx = find (\<lambda>tx. tx_type tx = ''processing'' \<and> data_batchID (tx_data tx) = Some batchID)
                           (state_transactions st)
      in case collectionTx of
           None \<Rightarrow> None
         | Some c \<Rightarrow>
             Some \<lparr>fb_batchID = batchID,
                   fb_farmer = tx_data c,
                   fb_lab = map_option tx_data qualityTx,
                   fb_processor = map_option tx_data processingTx,
                   fb_qrCode = ''HERB_TRACE_'' @ batchID @ ''_'' @ millis,
                   fb_isVerified = (qualityTx \<noteq> None \<and> processingTx \<noteq> None),
                   fb_lastUpdated = now\<rparr>)"

definition validateGeoFence :: "GPSCoordinates \<Rightarrow> string \<Rightarrow> bool" where
  "validateGeoFence gps species =
     (if includes_str (toLowerCase species) ''ashwagandha''
      then lat gps \<ge> 24.0 \<and> lat gps \<le> 30.0 \<and> lng gps \<ge> 69.0 \<and> lng gps \<le> 78.0
      else True)"

definition validateSeason :: "runtime \<Rightarrow> string \<Rightarrow> string \<Rightarrow> bool" where
  "validateSeason rt ts species =
     (if includes_str (toLowerCase species) ''ashwagandha'' then isValidSeason (getMonth rt ts)
      else True)"

section \<open>Sample inputs\<close>

text \<open>A concrete runtime and concrete payloads, used to run the definitions. The payloads
  are the sample data of \<^verbatim>\<open>initializeSampleData\<close>.\<close>

definition demo_runtime :: runtime where
  "demo_runtime =
     \<lparr>sha256 = (\<lambda>s. ''#'' @ s), stringify = (\<lambda>d. ''{}''),
      getMonth = (\<lambda>t. if t = ''2025-06-15T08:30:00Z'' then Some 5 else Some 0),
      isoDate = (\<lambda>t. True), API_BASE_URL = None\<rparr>"

definition demo_env :: "string \<Rightarrow> call_env" where
  "demo_env txId = \<lparr>env_txId = txId, env_now = ''2025-01-15T08:30:00Z'', env_write_error = None\<rparr>"

definition sampleCollection :: CollectionEvent where
  "sampleCollection =
     \<lparr>ce_id = ''BATCH_ASH_001'', ce_species = ''Ashwagandha'',
      ce_gps = \<lparr>lat = 26.9124, lng = 75.7873, altitude = None\<rparr>,
      ce_timestamp = ''2025-01-15T08:30:00Z'', ce_moisture = 12.5,
      ce_photo = Some ''ashwagandha_harvest.jpg'',
      ce_farmerName = ''Ram Kumar Sharma'', ce_farmerId = ''FARMER_001''\<rparr>"

definition sampleQuality :: QualityTest where
  "sampleQuality =
     \<lparr>qt_id = ''TEST_001'', qt_batchID = ''BATCH_ASH_001'', qt_dna = ''ATCGATCGATCGATCG...'',
      qt_pesticide = 0.03, qt_moisture = 12.5, qt_heavyMetals = Some 0.01,
      qt_labName = ''Ayurveda Quality Labs Pvt Ltd'', qt_labId = ''LAB_AQL_001'',
      qt_testDate = ''2025-01-16T14:00:00Z'', qt_reportFile = None, qt_verified = True,
      qt_status = None, qt_warnings = []\<rparr>"

definition sampleProcessing :: ProcessingStep where
  "sampleProcessing =
     \<lparr>ps_id = ''PROC_001'', ps_batchID = ''BATCH_ASH_001'', ps_drying = ''completed'',
      ps_grinding = ''completed'', ps_packaging = ''in-progress'',
      ps_processorName = ''Himalaya Wellness Company'', ps_processorId = ''PROC_HWC_001'',
      ps_processDate = ''2025-01-18T10:00:00Z'', ps_history = None, ps_lastUpdated = None,
      ps_qrCode = None\<rparr>"

text \<open>The freshly initialised backend ledger, and the ledger after the sample collection
  event has been submitted to it.\<close>

definition demo_fresh :: service where
  "demo_fresh = snd (initialize demo_runtime (demo_env ''tx_0_init'') constructed)"

definition demo_collected :: service where
  "demo_collected =
     snd (submitTransaction demo_runtime (demo_env ''tx_1_a'') ''collection''
            (CollectionData sampleCollection) [] demo_fresh)"

text \<open>Variants of the samples: a harvest outside the region, a harvest in June, a test
  that exceeds the pesticide limit, and a request to the lab route.\<close>

definition outsideCollection :: CollectionEvent where
  "outsideCollection = sampleCollection\<lparr>ce_id := ''BATCH_ASH_002'', ce_gps := \<lparr>lat = 10.0, lng = 10.0, altitude = None\<rparr>\<rparr>"

definition juneCollection :: CollectionEvent where
  "juneCollection = sampleCollection\<lparr>ce_id := ''BATCH_ASH_003'', ce_timestamp := ''2025-06-15T08:30:00Z''\<rparr>"

definition failedQuality :: QualityTest where
  "failedQuality = sampleQuality\<lparr>qt_id := ''TEST_003'', qt_pesticide := 0.2, qt_verified := False,
     qt_status := Some ''FAILED'', qt_warnings := [PesticideExceeds (Some 0.2)]\<rparr>"

definition sampleRequest :: QualityTestRequest where
  "sampleRequest =
     \<lparr>rq_batchID = ''BATCH_ASH_001'', rq_dna = ''ATCGATCGATCGATCG...'', rq_pesticide = 0.03,
      rq_moisture = 12.5, rq_heavyMetals = Some 0.01, rq_labName = ''Ayurveda Quality Labs Pvt Ltd'',
      rq_labId = ''LAB_AQL_001'', rq_testDate = None, rq_notes = None, rq_report = None\<rparr>"

definition failedRequest :: QualityTestRequest where
  "failedRequest = sampleRequest\<lparr>rq_pesticide := 0.2\<rparr>"

definition sampleQuality2 :: QualityTest where
  "sampleQuality2 = sampleQuality\<lparr>qt_id := ''TEST_002'', qt_pesticide := 0.05\<rparr>"

definition demo_orphan_test :: service where
  "demo_orphan_test =
     snd (submitTransaction demo_runtime (demo_env ''tx_1_q'') ''quality_test''
            (QualityData sampleQuality) [] demo_fresh)"

definition demo_tested :: service where
  "demo_tested =
     snd (submitTransaction demo_runtime (demo_env ''tx_2_b'') ''quality_test''
            (QualityData sampleQuality) [] demo_collected)"

definition demo_tested_twice :: service where
  "demo_tested_twice =
     snd (submitTransaction demo_runtime (demo_env ''tx_3_c'') ''quality_test''
            (QualityData sampleQuality2) [] demo_tested)"

text \<open>
  The processing records of a finished batch: all three stages completed, and the copy
  with the QR reference that \<^verbatim>\<open>generate-qr\<close> submits after it. The two ledgers hold the
  sample batch with both quality tests, then the finished record, then the QR record.
\<close>

definition completedProcessing :: ProcessingStep where
  "completedProcessing = sampleProcessing\<lparr>ps_id := ''PROC_003'', ps_packaging := ''completed''\<rparr>"

definition qrProcessing :: ProcessingStep where
  "qrProcessing =
     completedProcessing\<lparr>ps_qrCode := Some ''/uploads/qr-codes/qr_BATCH_ASH_001_1737194400000.png''\<rparr>"

definition demo_processed :: service where
  "demo_processed =
     snd (submitTransaction demo_runtime (demo_env ''tx_4_d'') ''processing''
            (ProcessingData completedProcessing) [] demo_tested_twice)"

definition demo_qr_issued :: service where
  "demo_qr_issued =
     snd (submitTransaction demo_runtime (demo_env ''tx_5_e'') ''processing''
            (ProcessingData qrProcessing) [] demo_processed)"



text \<open>
  \<^verbatim>\<open>initializeSampleData\<close>, which the constructor of the frontend service runs on the empty
  state: it submits the three samples; the arguments are the generated id and the clock
  of each submission. Then the frontend state after one more processing record, with
  all stages completed, has been submitted for the sample batch.
\<close>

definition initializeSampleData ::
  "runtime \<Rightarrow> string \<times> string \<Rightarrow> string \<times> string \<Rightarrow> string \<times> string \<Rightarrow> BlockchainState
     \<Rightarrow> BlockchainState" where
  "initializeSampleData rt c1 c2 c3 st =
     (let st1 = snd (fe_submitTransaction rt (fst c1) (snd c1) ''collection''
                       (CollectionData sampleCollection) st);
          st2 = snd (fe_submitTransaction rt (fst c2) (snd c2) ''quality_test''
                       (QualityData sampleQuality) st1)
      in snd (fe_submitTransaction rt (fst c3) (snd c3) ''processing''
                (ProcessingData sampleProcessing) st2))"

definition fe_sample :: BlockchainState where
  "fe_sample =
     initializeSampleData demo_runtime (''tx_1_a'', ''2025-01-18T10:00:00Z'')
       (''tx_1_b'', ''2025-01-18T10:00:00Z'') (''tx_1_c'', ''2025-01-18T10:00:00Z'')
       \<lparr>state_transactions = []\<rparr>"

definition fe_packaged :: BlockchainState where
  "fe_packaged =
     snd (fe_submitTransaction demo_runtime ''tx_2_d'' ''2025-01-19T10:00:00Z'' ''processing''
            (ProcessingData completedProcessing) fe_sample)"

text \<open>A processing record that has \<^verbatim>\<open>grinding\<close> under way while \<^verbatim>\<open>drying\<close> is still pending.\<close>

definition skippedProcessing :: ProcessingStep where
  "skippedProcessing =
     sampleProcessing\<lparr>ps_id := ''PROC_002'', ps_drying := ''pending'',
                      ps_grinding := ''in-progress'', ps_packaging := ''pending''\<rparr>"

text \<open>Two requests to the processor route for the sample batch.\<close>

definition grindingRequest :: UpdateStatusRequest where
  "grindingRequest =
     \<lparr>us_batchID = ''BATCH_ASH_001'', us_step = ''grinding'', us_status = ''in-progress'',
      us_processorId = ''PROC_HWC_001'', us_processorName = ''Himalaya Wellness Company'',
      us_notes = None\<rparr>"

definition dryingRequest :: UpdateStatusRequest where
  "dryingRequest = grindingRequest\<lparr>us_step := ''drying'', us_status := ''completed''\<rparr>"

section \<open>Vocabulary of the properties\<close>

text \<open>The log contains a collection transaction whose identifier is the batch id.\<close>

definition hasCollection :: "BlockchainTransaction list \<Rightarrow> string \<Rightarrow> bool" where
  "hasCollection txs batchID =
     list_ex (\<lambda>tx. tx_type tx = ''collection'' \<and> data_id (tx_data tx) = Some batchID) txs"

text \<open>The batch id appears in some transaction of the log: as the identifier of a
  collection transaction, or as the \<^verbatim>\<open>batchID\<close> of a transaction of another type.\<close>

definition referenced :: "BlockchainTransaction list \<Rightarrow> string \<Rightarrow> bool" where
  "referenced txs batchID =
     list_ex (\<lambda>tx. (tx_type tx = ''collection'' \<and> data_id (tx_data tx) = Some batchID) \<or>
                   (tx_type tx \<noteq> ''collection'' \<and> data_batchID (tx_data tx) = Some batchID)) txs"

text \<open>The transaction of a type that refers to the batch and was appended last, and the one
  that was appended first.\<close>

definition latestOfType :: "BlockchainTransaction list \<Rightarrow> string \<Rightarrow> string \<Rightarrow> payload option" where
  "latestOfType txs ty batchID =
     map_option tx_data
       (find (\<lambda>tx. tx_type tx = ty \<and> data_batchID (tx_data tx) = Some batchID) (rev txs))"

definition earliestOfType :: "BlockchainTransaction list \<Rightarrow> string \<Rightarrow> string \<Rightarrow> payload option" where
  "earliestOfType txs ty batchID =
     map_option tx_data
       (find (\<lambda>tx. tx_type tx = ty \<and> data_batchID (tx_data tx) = Some batchID) txs)"



text \<open>The status of a stage as the \<^verbatim>\<open>update-status\<close> handler sees it: that of
  \<^verbatim>\<open>provenance.processor\<close>, and \<^verbatim>\<open>pending\<close> while the batch has no processing record.\<close>

definition currentStage :: "ProvenanceBundle \<Rightarrow> string \<Rightarrow> string option" where
  "currentStage p name =
     (case pb_processor p of None \<Rightarrow> Some ''pending'' | Some d \<Rightarrow> data_stage d name)"

section \<open>Properties\<close>

lemma transactions_initialize_constructed:
  "transactions (snd (initialize rt e constructed)) =
     [\<lparr>tx_id = ''tx_genesis_000'', tx_type = ''genesis'',
       tx_data = GenesisData ''SIH25027 Traceability Chain Genesis Block'' ''Team Hackon'' (env_now e),
       tx_timestamp = env_now e,
       tx_hash = calculateHash rt ''genesis_block_sih25027'',
       tx_previousHash = ZERO_HASH, tx_endorsements = None\<rparr>]"
  by (simp add: initialize_def constructed_def createGenesisBlock_def saveLedger_def Let_def
      split: option.splits)

subsection \<open>Hash chain\<close>

lemma transactions_submitTransaction:
  "transactions (snd (submitTransaction rt e ty d en s)) = transactions s \<or>
   (\<exists>tx. transactions (snd (submitTransaction rt e ty d en s)) = transactions s @ [tx] \<and>
         tx_previousHash tx = getLastTransactionHash s)"
  by (simp add: submitTransaction_def newTransaction_def saveLedger_def Let_def split: option.splits)

lemma chain_append:
  assumes "txs \<noteq> []"
    and "\<forall>i. 0 < i \<and> i < length txs \<longrightarrow> tx_previousHash (txs ! i) = tx_hash (txs ! (i - 1))"
    and "tx_previousHash tx = tx_hash (txs ! (length txs - 1))"
  shows "\<forall>i. 0 < i \<and> i < length (txs @ [tx]) \<longrightarrow>
            tx_previousHash ((txs @ [tx]) ! i) = tx_hash ((txs @ [tx]) ! (i - 1))"
proof (intro allI impI)
  fix i assume i: "0 < i \<and> i < length (txs @ [tx])"
  show "tx_previousHash ((txs @ [tx]) ! i) = tx_hash ((txs @ [tx]) ! (i - 1))"
  proof (cases "i < length txs")
    case True
    then have "i - 1 < length txs" by simp
    with True i assms(2) show ?thesis by (simp add: nth_append)
  next
    case False
    with i have "i = length txs" by simp
    with assms(1,3) show ?thesis by (simp add: nth_append)
  qed
qed

lemma demo_fresh_transactions:
  "transactions demo_fresh =
     [\<lparr>tx_id = ''tx_genesis_000'', tx_type = ''genesis'',
       tx_data = GenesisData ''SIH25027 Traceability Chain Genesis Block'' ''Team Hackon''
                   ''2025-01-15T08:30:00Z'',
       tx_timestamp = ''2025-01-15T08:30:00Z'',
       tx_hash = ''#genesis_block_sih25027'',
       tx_previousHash = ZERO_HASH, tx_endorsements = None\<rparr>]"
  by (simp add: demo_fresh_def transactions_initialize_constructed demo_env_def
      calculateHash_def demo_runtime_def)

lemma sampleCollection_valid:
  "snd (validateCollectionEvent demo_runtime sampleCollection) = \<lparr>valid = True, reason = None\<rparr>"
  unfolding demo_runtime_def sampleCollection_def by code_simp

lemma demo_collected_transactions:
  "transactions demo_collected =
     transactions demo_fresh @
     [\<lparr>tx_id = ''tx_1_a'', tx_type = ''collection'', tx_data = CollectionData sampleCollection,
       tx_timestamp = ''2025-01-15T08:30:00Z'', tx_hash = ''#{}tx_1_a'',
       tx_previousHash = ''#genesis_block_sih25027'', tx_endorsements = Some []\<rparr>]"
  by (simp add: demo_collected_def submitTransaction_def newTransaction_def validateTransaction_def
      sampleCollection_valid saveLedger_def getLastTransactionHash_def demo_fresh_transactions
      demo_env_def calculateHash_def Let_def)
     (simp add: demo_runtime_def)

text \<open>
  C1. In every state the backend service reaches from the freshly initialised ledger by
  calls of \<^verbatim>\<open>submitTransaction\<close>, the log starts with the genesis transaction, whose
  \<^verbatim>\<open>previousHash\<close> is the all-zero sentinel, and every later transaction's
  \<^verbatim>\<open>previousHash\<close> is the \<^verbatim>\<open>hash\<close> of the transaction just before it.
\<close>

theorem chain_links:
  assumes "reachable rt s"
  shows "transactions s \<noteq> [] \<and>
         tx_type (transactions s ! 0) = ''genesis'' \<and>
         tx_previousHash (transactions s ! 0) = ZERO_HASH \<and>
         (\<forall>i. 0 < i \<and> i < length (transactions s) \<longrightarrow>
              tx_previousHash (transactions s ! i) = tx_hash (transactions s ! (i - 1)))"
  using assms
proof (induction rule: reachable.induct)
  case (fresh e)
  show ?case by (simp add: transactions_initialize_constructed)
next
  case (submit s e ty d en)
  let ?s' = "snd (submitTransaction rt e ty d en s)"
  from transactions_submitTransaction [of rt e ty d en s]
  consider (same) "transactions ?s' = transactions s"
    | (app) tx where "transactions ?s' = transactions s @ [tx]"
        "tx_previousHash tx = getLastTransactionHash s"
    by blast
  then show ?case
  proof cases
    case same
    with submit.IH show ?thesis by simp
  next
    case app
    from submit.IH have ne: "transactions s \<noteq> []" by simp
    with app(2) have "tx_previousHash tx = tx_hash (transactions s ! (length (transactions s) - 1))"
      by (simp add: getLastTransactionHash_def)
    with ne submit.IH
    have "\<forall>i. 0 < i \<and> i < length (transactions s @ [tx]) \<longrightarrow>
            tx_previousHash ((transactions s @ [tx]) ! i) = tx_hash ((transactions s @ [tx]) ! (i - 1))"
      by (intro chain_append) simp_all
    with ne submit.IH app(1) show ?thesis by (simp add: nth_append)
  qed
qed

theorem chain_links_witness:
  "reachable demo_runtime demo_collected \<and>
   length (transactions demo_collected) = 2 \<and>
   tx_previousHash (transactions demo_collected ! 0) = ZERO_HASH \<and>
   tx_previousHash (transactions demo_collected ! 1) = tx_hash (transactions demo_collected ! 0)"
proof -
  have r: "reachable demo_runtime demo_collected"
    unfolding demo_collected_def demo_fresh_def by (intro reachable.intros)
  have len: "length (transactions demo_collected) = 2"
    by (simp add: demo_collected_transactions demo_fresh_transactions)
  from chain_links [OF r] len show ?thesis using r by simp
qed

subsection \<open>Provenance query\<close>

lemma find_filter: "find P (filter Q xs) = find (\<lambda>x. Q x \<and> P x) xs"
  by (induction xs) auto

lemma find_None_list_ex: "(find P xs = None) = (\<not> list_ex P xs)"
  by (induction xs) auto

lemma filter_Nil_list_ex: "(filter P xs = []) = (\<not> list_ex P xs)"
  by (induction xs) auto

lemma getProvenance_None:
  "(getProvenance rt now s b = None) = (\<not> referenced (transactions s) b)"
  by (auto simp: getProvenance_def referenced_def Let_def filter_empty_conv list_ex_iff
      split: if_splits)

lemma getProvenance_farmer:
  assumes "getProvenance rt now s b = Some p"
  shows "pb_farmer p =
           map_option tx_data
             (find (\<lambda>tx. tx_type tx = ''collection'' \<and> data_id (tx_data tx) = Some b) (transactions s))"
proof -
  have eq: "(\<lambda>x. (if tx_type x = ''collection'' then data_id (tx_data x) = Some b
                  else data_batchID (tx_data x) = Some b) \<and> tx_type x = ''collection'') =
            (\<lambda>tx. tx_type tx = ''collection'' \<and> data_id (tx_data tx) = Some b)"
    by auto
  from assms show ?thesis
    by (auto simp: getProvenance_def Let_def find_filter eq split: if_splits)
qed

lemma getProvenance_lab:
  assumes "getProvenance rt now s b = Some p"
  shows "pb_lab p = earliestOfType (transactions s) ''quality_test'' b"
proof -
  have eq: "(\<lambda>x. (if tx_type x = ''collection'' then data_id (tx_data x) = Some b
                  else data_batchID (tx_data x) = Some b) \<and> tx_type x = ''quality_test'') =
            (\<lambda>tx. tx_type tx = ''quality_test'' \<and> data_batchID (tx_data tx) = Some b)"
    by auto
  from assms show ?thesis
    by (auto simp: getProvenance_def earliestOfType_def Let_def find_filter eq split: if_splits)
qed

lemma getProvenance_processor:
  assumes "getProvenance rt now s b = Some p"
  shows "pb_processor p = earliestOfType (transactions s) ''processing'' b"
proof -
  have eq: "(\<lambda>x. (if tx_type x = ''collection'' then data_id (tx_data x) = Some b
                  else data_batchID (tx_data x) = Some b) \<and> tx_type x = ''processing'') =
            (\<lambda>tx. tx_type tx = ''processing'' \<and> data_batchID (tx_data tx) = Some b)"
    by auto
  from assms show ?thesis
    by (auto simp: getProvenance_def earliestOfType_def Let_def find_filter eq split: if_splits)
qed

lemma hasCollection_referenced: "hasCollection txs b \<Longrightarrow> referenced txs b"
  by (induction txs) (auto simp: hasCollection_def referenced_def)

text \<open>
  C2 (amended). The backend \<^verbatim>\<open>getProvenance\<close> returns \<^verbatim>\<open>null\<close> exactly when no transaction
  of the log refers to the batch id (a collection transaction by its identifier, any
  other transaction by its \<^verbatim>\<open>batchID\<close>); what it returns is \<^verbatim>\<open>null\<close> or a bundle whose
  \<^verbatim>\<open>farmer\<close> is \<^verbatim>\<open>null\<close> exactly when the log has no collection transaction with that
  identifier. The frontend \<^verbatim>\<open>getProvenance\<close> returns \<^verbatim>\<open>null\<close> exactly when the log has no
  collection transaction with that identifier.
\<close>

theorem provenance_not_found:
  "(getProvenance rt now s b = None \<longleftrightarrow> \<not> referenced (transactions s) b) \<and>
   ((case getProvenance rt now s b of None \<Rightarrow> True | Some p \<Rightarrow> pb_farmer p = None)
      \<longleftrightarrow> \<not> hasCollection (transactions s) b) \<and>
   (fe_getProvenance now' millis st b = None \<longleftrightarrow> \<not> hasCollection (state_transactions st) b)"
proof (intro conjI)
  show "getProvenance rt now s b = None \<longleftrightarrow> \<not> referenced (transactions s) b"
    by (rule getProvenance_None)
  show "(case getProvenance rt now s b of None \<Rightarrow> True | Some p \<Rightarrow> pb_farmer p = None)
          \<longleftrightarrow> \<not> hasCollection (transactions s) b"
  proof (cases "getProvenance rt now s b")
    case None
    then have "\<not> referenced (transactions s) b" by (simp add: getProvenance_None)
    then have "\<not> hasCollection (transactions s) b" using hasCollection_referenced by blast
    with None show ?thesis by simp
  next
    case (Some p)
    from getProvenance_farmer [OF Some] show ?thesis
      by (simp add: Some hasCollection_def find_None_list_ex)
  qed
  show "fe_getProvenance now' millis st b = None \<longleftrightarrow> \<not> hasCollection (state_transactions st) b"
    by (simp add: fe_getProvenance_def hasCollection_def Let_def find_None_list_ex [symmetric]
        split: option.splits)
qed

text \<open>
  C2 as stated fails on the backend: after a quality test for a batch that was never
  collected has been submitted to the fresh ledger, \<^verbatim>\<open>getProvenance\<close> returns a bundle
  for that batch although no collection transaction carries its identifier.
\<close>

theorem provenance_not_found_counterexample:
  "getProvenance demo_runtime ''2025-01-17T00:00:00Z'' demo_orphan_test ''BATCH_ASH_001'' \<noteq> None \<and>
   \<not> hasCollection (transactions demo_orphan_test) ''BATCH_ASH_001''"
  by code_simp

lemma find_first:
  assumes "P t" and "\<forall>x\<in>set xs. \<not> P x"
  shows "find P (xs @ t # ys) = Some t"
  using assms by (induction xs) auto

text \<open>
  What \<^verbatim>\<open>find\<close> does in both services: of the quality-test (respectively processing)
  transactions that refer to the batch, the \<^verbatim>\<open>data\<close> of the one appended first goes into
  \<^verbatim>\<open>lab\<close> (respectively \<^verbatim>\<open>processor\<close>), whatever was appended after it.
\<close>

lemma getProvenance_selects_first:
  assumes "ty = ''quality_test'' \<or> ty = ''processing''"
    and "transactions s = xs @ t # ys"
    and "state_transactions st = xs @ t # ys"
    and "tx_type t = ty \<and> data_batchID (tx_data t) = Some b"
    and "\<forall>x\<in>set xs. \<not> (tx_type x = ty \<and> data_batchID (tx_data x) = Some b)"
  shows "(\<exists>p. getProvenance rt now s b = Some p \<and>
              (if ty = ''quality_test'' then pb_lab p else pb_processor p) = Some (tx_data t)) \<and>
         (\<forall>q. fe_getProvenance now' millis st b = Some q \<longrightarrow>
              (if ty = ''quality_test'' then fb_lab q else fb_processor q) = Some (tx_data t))"
proof (intro conjI allI impI)
  from assms(1,2,4) have "referenced (transactions s) b"
    by (auto simp: referenced_def list_ex_iff)
  then obtain p where p: "getProvenance rt now s b = Some p"
    using getProvenance_None [of rt now s b] by (cases "getProvenance rt now s b") auto
  have e: "earliestOfType (xs @ t # ys) ty b = Some (tx_data t)"
    using find_first [of "\<lambda>tx. tx_type tx = ty \<and> data_batchID (tx_data tx) = Some b" t xs ys]
      assms(4,5)
    by (simp add: earliestOfType_def)
  with assms(1,2) getProvenance_lab [OF p] getProvenance_processor [OF p] p
  show "\<exists>p. getProvenance rt now s b = Some p \<and>
             (if ty = ''quality_test'' then pb_lab p else pb_processor p) = Some (tx_data t)"
    by auto
  fix q assume q: "fe_getProvenance now' millis st b = Some q"
  then have "fb_lab q = earliestOfType (state_transactions st) ''quality_test'' b"
    and "fb_processor q = earliestOfType (state_transactions st) ''processing'' b"
    by (auto simp: fe_getProvenance_def earliestOfType_def Let_def split: option.splits)
  with assms(1,3) e
  show "(if ty = ''quality_test'' then fb_lab q else fb_processor q) = Some (tx_data t)"
    by auto
qed

text \<open>
  C3. The code does not select the most recently appended transaction. On the backend
  ledger that holds two quality tests, the finished processing record and then the
  record with the QR reference, \<^verbatim>\<open>getProvenance\<close> returns the first quality test and the
  first processing record, which has no \<^verbatim>\<open>qrCode\<close>, while the transactions appended last
  are the second test and the QR record. On the frontend state that holds the sample
  processing record (packaging in progress) and then a record with all stages
  completed, \<^verbatim>\<open>getProvenance\<close> returns the record with packaging in progress.
\<close>

theorem provenance_latest_record_hidden:
  "pb_lab (the (getProvenance demo_runtime ''2025-01-20T00:00:00Z'' demo_qr_issued ''BATCH_ASH_001''))
     = Some (QualityData sampleQuality) \<and>
   latestOfType (transactions demo_qr_issued) ''quality_test'' ''BATCH_ASH_001''
     = Some (QualityData sampleQuality2) \<and>
   pb_processor (the (getProvenance demo_runtime ''2025-01-20T00:00:00Z'' demo_qr_issued ''BATCH_ASH_001''))
     = Some (ProcessingData completedProcessing) \<and>
   ps_qrCode completedProcessing = None \<and>
   latestOfType (transactions demo_qr_issued) ''processing'' ''BATCH_ASH_001''
     = Some (ProcessingData qrProcessing) \<and>
   ps_qrCode qrProcessing = Some ''/uploads/qr-codes/qr_BATCH_ASH_001_1737194400000.png'' \<and>
   fb_processor (the (fe_getProvenance ''2025-01-20T00:00:00Z'' ''1737331200000'' fe_packaged
                        ''BATCH_ASH_001''))
     = Some (ProcessingData sampleProcessing) \<and>
   ps_packaging sampleProcessing = ''in-progress'' \<and>
   latestOfType (state_transactions fe_packaged) ''processing'' ''BATCH_ASH_001''
     = Some (ProcessingData completedProcessing) \<and>
   ps_packaging completedProcessing = ''completed''"
  by code_simp

subsection \<open>Quality tests for unknown batches\<close>

lemma provenance_farmer_missing:
  "(getProvenance rt now s b = None \<or> pb_farmer (the (getProvenance rt now s b)) = None)
     = (\<not> hasCollection (transactions s) b)"
proof (cases "getProvenance rt now s b")
  case None
  then have "\<not> referenced (transactions s) b" by (simp add: getProvenance_None)
  then have "\<not> hasCollection (transactions s) b" using hasCollection_referenced by blast
  with None show ?thesis by simp
next
  case (Some p)
  from getProvenance_farmer [OF Some] show ?thesis
    by (simp add: Some hasCollection_def find_None_list_ex)
qed

text \<open>
  C4 (amended). Through the lab route \<^verbatim>\<open>POST /api/lab/upload\<close>, a request that passes the
  schema and whose \<^verbatim>\<open>batchID\<close> is the identifier of no collection transaction is answered
  404 \<^verbatim>\<open>Batch not found\<close>, and the service state (log and ledger file) is unchanged.
\<close>

theorem lab_upload_unknown_batch:
  assumes "qualityTestSchema rt r"
    and "\<not> hasCollection (transactions s) (rq_batchID r)"
  shows "lab_upload rt e testID r s =
           (\<lparr>http_status = 404, http_success = False, http_error = Some ''Batch not found'',
             http_message = Some (''No collection event found for batch '' @ rq_batchID r)\<rparr>, s)"
  using assms provenance_farmer_missing [of rt "env_now e" s "rq_batchID r"]
  by (simp add: lab_upload_def NOT_FOUND_def Let_def)

theorem lab_upload_unknown_batch_witness:
  "qualityTestSchema demo_runtime sampleRequest \<and>
   \<not> hasCollection (transactions demo_fresh) (rq_batchID sampleRequest) \<and>
   lab_upload demo_runtime (demo_env ''tx_1_q'') ''TEST_1_abc'' sampleRequest demo_fresh =
     (\<lparr>http_status = 404, http_success = False, http_error = Some ''Batch not found'',
       http_message = Some ''No collection event found for batch BATCH_ASH_001''\<rparr>, demo_fresh)"
proof -
  have a: "qualityTestSchema demo_runtime sampleRequest" by code_simp
  have b: "\<not> hasCollection (transactions demo_fresh) (rq_batchID sampleRequest)" by code_simp
  have c: "rq_batchID sampleRequest = ''BATCH_ASH_001''" by (simp add: sampleRequest_def)
  from lab_upload_unknown_batch [OF a b, of "demo_env ''tx_1_q''" "''TEST_1_abc''"] a b c
  show ?thesis by simp
qed

text \<open>
  C4 as stated fails for \<^verbatim>\<open>submitTransaction\<close> itself: \<^verbatim>\<open>validateQualityTest\<close> looks at the
  measured values only, so a quality test for a batch that has no collection
  transaction is committed and the log grows by one.
\<close>

theorem quality_test_unknown_batch_counterexample:
  "\<not> hasCollection (transactions demo_fresh) (qt_batchID sampleQuality) \<and>
   fst (submitTransaction demo_runtime (demo_env ''tx_1_q'') ''quality_test''
          (QualityData sampleQuality) [] demo_fresh) =
     Inr \<lparr>transactionId = ''tx_1_q'', status = ''COMMITTED'', hash = ''#{}tx_1_q'',
          timestamp = ''2025-01-15T08:30:00Z''\<rparr> \<and>
   length (transactions demo_orphan_test) = length (transactions demo_fresh) + 1 \<and>
   tx_data (last (transactions demo_orphan_test)) = QualityData sampleQuality"
  by code_simp

subsection \<open>Collection rules\<close>

text \<open>
  C7. For a collection event whose species contains \<^verbatim>\<open>ashwagandha\<close> (in any letter case),
  \<^verbatim>\<open>validateCollectionEvent\<close> accepts exactly when the coordinates lie in the box
  latitude 24 to 30, longitude 69 to 78; the result does not depend on the harvest
  timestamp; an accepted event harvested outside October to February is accepted with
  a seasonal warning on the console; and a rejected event makes \<^verbatim>\<open>submitTransaction\<close>
  raise the geo-fence reason and leave the service state as it was.
\<close>

theorem ashwagandha_geofence:
  assumes "includes_str (toLowerCase (ce_species d)) ''ashwagandha''"
  shows "(valid (snd (validateCollectionEvent rt d)) \<longleftrightarrow>
            24 \<le> lat (ce_gps d) \<and> lat (ce_gps d) \<le> 30 \<and> 69 \<le> lng (ce_gps d) \<and> lng (ce_gps d) \<le> 78) \<and>
         snd (validateCollectionEvent rt (d\<lparr>ce_timestamp := ts\<rparr>)) = snd (validateCollectionEvent rt d) \<and>
         (valid (snd (validateCollectionEvent rt d)) \<and> \<not> isValidSeason (getMonth rt (ce_timestamp d)) \<longrightarrow>
            validateCollectionEvent rt d =
              ([GeoFencePassed (ce_species d),
                SeasonWarning (ce_species d) (map_option Suc (getMonth rt (ce_timestamp d)))],
               \<lparr>valid = True, reason = None\<rparr>)) \<and>
         (\<not> valid (snd (validateCollectionEvent rt d)) \<longrightarrow>
            submitTransaction rt e ''collection'' (CollectionData d) en s =
              (Inl (Error (''Transaction validation failed: '' @
                           ''GPS coordinates outside valid cultivation region for Ashwagandha'')), s))"
  using assms
  by (auto simp: validateCollectionEvent_def submitTransaction_def newTransaction_def
      validateTransaction_def reason_text_def Let_def)

theorem ashwagandha_geofence_witness:
  "includes_str (toLowerCase (ce_species sampleCollection)) ''ashwagandha'' \<and>
   ce_gps sampleCollection = \<lparr>lat = 26.9124, lng = 75.7873, altitude = None\<rparr> \<and>
   valid (snd (validateCollectionEvent demo_runtime sampleCollection)) \<and>
   ce_gps outsideCollection = \<lparr>lat = 10.0, lng = 10.0, altitude = None\<rparr> \<and>
   \<not> valid (snd (validateCollectionEvent demo_runtime outsideCollection)) \<and>
   \<not> isValidSeason (getMonth demo_runtime (ce_timestamp juneCollection)) \<and>
   validateCollectionEvent demo_runtime juneCollection =
     ([GeoFencePassed ''Ashwagandha'', SeasonWarning ''Ashwagandha'' (Some 6)],
      \<lparr>valid = True, reason = None\<rparr>)"
proof -
  have sp: "includes_str (toLowerCase (ce_species sampleCollection)) ''ashwagandha''"
    by code_simp
  have sp2: "includes_str (toLowerCase (ce_species outsideCollection)) ''ashwagandha''"
    by code_simp
  have sp3: "includes_str (toLowerCase (ce_species juneCollection)) ''ashwagandha''"
    by code_simp
  have g1: "ce_gps sampleCollection = \<lparr>lat = 26.9124, lng = 75.7873, altitude = None\<rparr>"
    by (simp add: sampleCollection_def)
  have g2: "ce_gps outsideCollection = \<lparr>lat = 10.0, lng = 10.0, altitude = None\<rparr>"
    by (simp add: outsideCollection_def)
  have g3: "ce_gps juneCollection = \<lparr>lat = 26.9124, lng = 75.7873, altitude = None\<rparr>"
    by (simp add: juneCollection_def sampleCollection_def)
  have m: "getMonth demo_runtime (ce_timestamp juneCollection) = Some 5"
    by (simp add: juneCollection_def demo_runtime_def)
  have n: "ce_species juneCollection = ''Ashwagandha''"
    by (simp add: juneCollection_def sampleCollection_def)
  from ashwagandha_geofence [OF sp, of demo_runtime] g1
  have v1: "valid (snd (validateCollectionEvent demo_runtime sampleCollection))" by simp
  from ashwagandha_geofence [OF sp2, of demo_runtime] g2
  have v2: "\<not> valid (snd (validateCollectionEvent demo_runtime outsideCollection))" by simp
  from ashwagandha_geofence [OF sp3, of demo_runtime] g3 m n
  have v3: "validateCollectionEvent demo_runtime juneCollection =
     ([GeoFencePassed ''Ashwagandha'', SeasonWarning ''Ashwagandha'' (Some 6)],
      \<lparr>valid = True, reason = None\<rparr>)" by simp
  from sp g1 v1 g2 v2 v3 m show ?thesis by simp
qed

subsection \<open>Quality status\<close>

text \<open>
  C8 (amended). \<^verbatim>\<open>determineTestStatus\<close> gives \<^verbatim>\<open>PASSED\<close> with no warnings for pesticide
  0.03, heavy metals 0.01 and moisture 12.5, and \<^verbatim>\<open>FAILED\<close> for pesticide 0.2 whatever the
  other two values are. A quality test with pesticide 0.2 is not recorded:
  \<^verbatim>\<open>submitTransaction\<close> rejects it with the pesticide reason and leaves the service state
  as it was, and the lab route answers 500 for it.
\<close>

theorem quality_status_examples:
  "determineTestStatus (Some 0.03) (Some 0.01) (Some 12.5) =
     \<lparr>ts_passed = True, ts_status = ''PASSED'', ts_warnings = []\<rparr> \<and>
   ts_status (determineTestStatus (Some 0.2) heavyMetals moisture) = ''FAILED'' \<and>
   (qt_pesticide q = 0.2 \<longrightarrow>
      submitTransaction rt e ''quality_test'' (QualityData q) en s =
        (Inl (Error (''Transaction validation failed: '' @
                     ''Pesticide level exceeds WHO limit (0.1 ppm)'')), s)) \<and>
   (qualityTestSchema rt r \<and> hasCollection (transactions s) (rq_batchID r) \<and> rq_pesticide r = 0.2 \<longrightarrow>
      lab_upload rt e testID r s =
        (\<lparr>http_status = 500, http_success = False, http_error = Some ''Failed to submit quality test'',
          http_message = Some (''Transaction validation failed: '' @
                               ''Pesticide level exceeds WHO limit (0.1 ppm)'')\<rparr>, s))"
proof (intro conjI impI)
  show "determineTestStatus (Some 0.03) (Some 0.01) (Some 12.5) =
     \<lparr>ts_passed = True, ts_status = ''PASSED'', ts_warnings = []\<rparr>"
    by (simp add: determineTestStatus_def)
  show "ts_status (determineTestStatus (Some 0.2) heavyMetals moisture) = ''FAILED''"
    by (simp add: determineTestStatus_def Let_def split: prod.splits)
  have rej: "submitTransaction rt e ''quality_test'' (QualityData q') en s =
        (Inl (Error (''Transaction validation failed: '' @
                     ''Pesticide level exceeds WHO limit (0.1 ppm)'')), s)"
    if "qt_pesticide q' = 0.2" for q'
    using that
    by (simp add: submitTransaction_def newTransaction_def validateTransaction_def
        validateQualityTest_def reason_text_def Let_def)
  show "submitTransaction rt e ''quality_test'' (QualityData q) en s =
        (Inl (Error (''Transaction validation failed: '' @
                     ''Pesticide level exceeds WHO limit (0.1 ppm)'')), s)"
    if "qt_pesticide q = 0.2" using rej that by blast
  show "lab_upload rt e testID r s =
        (\<lparr>http_status = 500, http_success = False, http_error = Some ''Failed to submit quality test'',
          http_message = Some (''Transaction validation failed: '' @
                               ''Pesticide level exceeds WHO limit (0.1 ppm)'')\<rparr>, s)"
    if h: "qualityTestSchema rt r \<and> hasCollection (transactions s) (rq_batchID r) \<and> rq_pesticide r = 0.2"
  proof -
    from h provenance_farmer_missing [of rt "env_now e" s "rq_batchID r"]
    obtain p where p: "getProvenance rt (env_now e) s (rq_batchID r) = Some p" "pb_farmer p \<noteq> None"
      by (cases "getProvenance rt (env_now e) s (rq_batchID r)") auto
    from h have pest: "rq_pesticide r = 0.2" by simp
    from h p show ?thesis
      by (auto simp: lab_upload_def Let_def pest error_message_def
          submitTransaction_def newTransaction_def validateTransaction_def
          validateQualityTest_def reason_text_def)
  qed
qed

theorem quality_status_examples_witness:
  "qt_pesticide failedQuality = 0.2 \<and>
   submitTransaction demo_runtime (demo_env ''tx_2_f'') ''quality_test'' (QualityData failedQuality) []
       demo_collected =
     (Inl (Error ''Transaction validation failed: Pesticide level exceeds WHO limit (0.1 ppm)''),
      demo_collected) \<and>
   qualityTestSchema demo_runtime failedRequest \<and>
   hasCollection (transactions demo_collected) (rq_batchID failedRequest) \<and>
   rq_pesticide failedRequest = 0.2 \<and>
   http_status (fst (lab_upload demo_runtime (demo_env ''tx_2_f'') ''TEST_3_xyz'' failedRequest
                       demo_collected)) = 500"
proof -
  have a: "qt_pesticide failedQuality = 0.2" by code_simp
  have b: "qualityTestSchema demo_runtime failedRequest" by code_simp
  have c: "hasCollection (transactions demo_collected) (rq_batchID failedRequest)" by code_simp
  have d: "rq_pesticide failedRequest = 0.2" by code_simp
  from quality_status_examples [where q = failedQuality and rt = demo_runtime
      and e = "demo_env ''tx_2_f''" and en = "[]" and s = demo_collected and r = failedRequest
      and testID = "''TEST_3_xyz''"] a b c d
  show ?thesis by simp
qed

text \<open>
  C8 as stated fails in its last part: the sample test with pesticide 0.2, whose derived
  status is \<^verbatim>\<open>FAILED\<close>, is recorded neither by \<^verbatim>\<open>submitTransaction\<close> nor through the lab
  route; the service state after either call is the state before it.
\<close>

theorem failed_test_recorded_counterexample:
  "qt_pesticide failedQuality = 0.2 \<and>
   ts_status (derivedStatus (QualityData failedQuality)) = ''FAILED'' \<and>
   snd (submitTransaction demo_runtime (demo_env ''tx_2_f'') ''quality_test''
          (QualityData failedQuality) [] demo_collected) = demo_collected \<and>
   rq_pesticide failedRequest = 0.2 \<and>
   snd (lab_upload demo_runtime (demo_env ''tx_2_f'') ''TEST_3_xyz'' failedRequest demo_collected)
     = demo_collected"
  by code_simp

subsection \<open>Atomic submission\<close>

text \<open>
  C9. A call of the backend \<^verbatim>\<open>submitTransaction\<close> that returns has appended exactly the
  new transaction at the end of the log, left the earlier transactions as they were and
  written that log to the ledger file. When validation fails the call raises
  \<^verbatim>\<open>Transaction validation failed:\<close> followed by the validator's reason, and the service
  state, in memory and in the file, is the state before the call. A valid transaction
  is committed whenever the write succeeds.
\<close>

theorem submitTransaction_atomic:
  "(\<forall>r s'. submitTransaction rt e ty d en s = (Inr r, s') \<longrightarrow>
       transactions s' = transactions s @ [newTransaction rt e ty d en s] \<and>
       ledger_file s' = Some (transactions s') \<and>
       transactionId r = tx_id (newTransaction rt e ty d en s)) \<and>
   (\<not> valid (validateTransaction rt s (newTransaction rt e ty d en s)) \<longrightarrow>
       submitTransaction rt e ty d en s =
         (Inl (Error (''Transaction validation failed: '' @
                      reason_text (reason (validateTransaction rt s (newTransaction rt e ty d en s))))),
          s)) \<and>
   (valid (validateTransaction rt s (newTransaction rt e ty d en s)) \<and> env_write_error e = None \<longrightarrow>
       (\<exists>r. fst (submitTransaction rt e ty d en s) = Inr r))"
  by (auto simp: submitTransaction_def saveLedger_def Let_def split: option.splits if_splits)

theorem submitTransaction_atomic_witness:
  "submitTransaction demo_runtime (demo_env ''tx_1_a'') ''collection'' (CollectionData sampleCollection) []
       demo_fresh =
     (Inr \<lparr>transactionId = ''tx_1_a'', status = ''COMMITTED'', hash = ''#{}tx_1_a'',
           timestamp = ''2025-01-15T08:30:00Z''\<rparr>, demo_collected) \<and>
   transactions demo_collected =
     transactions demo_fresh @
       [newTransaction demo_runtime (demo_env ''tx_1_a'') ''collection'' (CollectionData sampleCollection) []
          demo_fresh] \<and>
   ledger_file demo_collected = Some (transactions demo_collected) \<and>
   \<not> valid (validateTransaction demo_runtime demo_collected
             (newTransaction demo_runtime (demo_env ''tx_2_o'') ''collection''
                (CollectionData outsideCollection) [] demo_collected)) \<and>
   submitTransaction demo_runtime (demo_env ''tx_2_o'') ''collection'' (CollectionData outsideCollection) []
       demo_collected =
     (Inl (Error (''Transaction validation failed: '' @
                  ''GPS coordinates outside valid cultivation region for Ashwagandha'')),
      demo_collected)"
proof -
  have ok: "submitTransaction demo_runtime (demo_env ''tx_1_a'') ''collection''
              (CollectionData sampleCollection) [] demo_fresh =
            (Inr \<lparr>transactionId = ''tx_1_a'', status = ''COMMITTED'', hash = ''#{}tx_1_a'',
                  timestamp = ''2025-01-15T08:30:00Z''\<rparr>, demo_collected)"
    by code_simp
  have bad: "\<not> valid (validateTransaction demo_runtime demo_collected
             (newTransaction demo_runtime (demo_env ''tx_2_o'') ''collection''
                (CollectionData outsideCollection) [] demo_collected))"
    by code_simp
  have why: "reason_text (reason (validateTransaction demo_runtime demo_collected
             (newTransaction demo_runtime (demo_env ''tx_2_o'') ''collection''
                (CollectionData outsideCollection) [] demo_collected))) =
             ''GPS coordinates outside valid cultivation region for Ashwagandha''"
    by code_simp
  from submitTransaction_atomic [of demo_runtime "demo_env ''tx_1_a''" "''collection''"
      "CollectionData sampleCollection" "[]" demo_fresh] ok
  have a: "transactions demo_collected =
     transactions demo_fresh @
       [newTransaction demo_runtime (demo_env ''tx_1_a'') ''collection'' (CollectionData sampleCollection) []
          demo_fresh] \<and>
     ledger_file demo_collected = Some (transactions demo_collected)"
    by simp
  from submitTransaction_atomic [of demo_runtime "demo_env ''tx_2_o''" "''collection''"
      "CollectionData outsideCollection" "[]" demo_collected] bad why
  have b: "submitTransaction demo_runtime (demo_env ''tx_2_o'') ''collection''
             (CollectionData outsideCollection) [] demo_collected =
     (Inl (Error (''Transaction validation failed: '' @
                  ''GPS coordinates outside valid cultivation region for Ashwagandha'')),
      demo_collected)"
    by simp
  from ok a bad b show ?thesis by simp
qed

subsection \<open>Frontend submission\<close>

text \<open>
  C10. The frontend \<^verbatim>\<open>submitTransaction\<close> validates nothing: for every type and payload
  it returns the generated id and its log is the old log with the new transaction
  appended; a collection event outside the geo-fence is appended like any other.
\<close>

theorem frontend_submit_unconditional:
  "fst (fe_submitTransaction rt txId now ty d st) = txId \<and>
   state_transactions (snd (fe_submitTransaction rt txId now ty d st)) =
     state_transactions st @
       [\<lparr>tx_id = txId, tx_type = ty, tx_data = d, tx_timestamp = now,
         tx_hash = generateHash (stringify rt d),
         tx_previousHash = fe_getLastTransactionHash st, tx_endorsements = None\<rparr>] \<and>
   length (state_transactions (snd (fe_submitTransaction rt txId now ty d st))) =
     length (state_transactions st) + 1 \<and>
   \<not> validateGeoFence (ce_gps outsideCollection) (ce_species outsideCollection) \<and>
   tx_data (last (state_transactions
      (snd (fe_submitTransaction rt txId now ''collection'' (CollectionData outsideCollection) st)))) =
     CollectionData outsideCollection"
proof -
  have "\<not> validateGeoFence (ce_gps outsideCollection) (ce_species outsideCollection)"
    by code_simp
  then show ?thesis by (simp add: fe_submitTransaction_def Let_def)
qed

subsection \<open>Processing validator\<close>

lemma validateProcessingStep_valid:
  "valid (validateProcessingStep s d) =
     list_ex (\<lambda>tx. tx_type tx = ''quality_test'' \<and> data_batchID (tx_data tx) = data_batchID d)
       (transactions s)"
proof (cases "find (\<lambda>tx. tx_type tx = ''quality_test'' \<and> data_batchID (tx_data tx) = data_batchID d)
               (transactions s)")
  case None
  then show ?thesis
    using find_None_list_ex [of "\<lambda>tx. tx_type tx = ''quality_test'' \<and>
                                      data_batchID (tx_data tx) = data_batchID d" "transactions s"]
    by (simp add: validateProcessingStep_def)
next
  case (Some q)
  then show ?thesis
    using find_None_list_ex [of "\<lambda>tx. tx_type tx = ''quality_test'' \<and>
                                      data_batchID (tx_data tx) = data_batchID d" "transactions s"]
    by (simp add: validateProcessingStep_def)
qed

subsection \<open>Stage order\<close>

lemma indexOf_stepOrder:
  "indexOf stepOrder ''drying'' = 0" "indexOf stepOrder ''grinding'' = 1"
  "indexOf stepOrder ''packaging'' = 2"
  by (simp_all add: stepOrder_def)

lemma stepOrder_nth: "stepOrder ! 0 = ''drying''" "stepOrder ! Suc 0 = ''grinding''"
  by (simp_all add: stepOrder_def)

lemma currentStage_processingStep:
  "name = ''drying'' \<or> name = ''grinding'' \<or> name = ''packaging'' \<Longrightarrow>
   data_stage (case pb_processor p of Some d \<Rightarrow> d | None \<Rightarrow> ProcessingData (freshProcessing e procID r)) name
     = currentStage p name"
  by (auto simp: currentStage_def freshProcessing_def split: option.splits)

lemma update_status_gates_passed:
  assumes "updateStatusSchema r"
    and "getProvenance rt (env_now e) s (us_batchID r) = Some p"
    and "lab_verified (pb_lab p)"
  shows "update_status rt e procID r s =
     (let processingStep = (case pb_processor p of Some d \<Rightarrow> d
                            | None \<Rightarrow> ProcessingData (freshProcessing e procID r));
          currentStepIndex = indexOf stepOrder (us_step r);
          previousStep = stepOrder ! nat (currentStepIndex - 1)
      in if currentStepIndex > 0 \<and> data_stage processingStep previousStep \<noteq> Some ''completed''
         then Some (BAD_REQUEST (''Cannot start '' @ us_step r @ '' before completing '' @ previousStep), s)
         else
           (case processingStep of
              ProcessingData q \<Rightarrow>
                (let p1 = (set_stage q (us_step r) (us_status r))\<lparr>ps_lastUpdated := Some (env_now e)\<rparr>;
                     p2 = p1\<lparr>ps_history :=
                               Some ((case ps_history p1 of None \<Rightarrow> [] | Some h \<Rightarrow> h) @
                                     [\<lparr>h_step = us_step r, h_status = us_status r,
                                       h_timestamp = env_now e,
                                       h_notes = (case us_notes r of None \<Rightarrow> [] | Some n \<Rightarrow> n)\<rparr>])\<rparr>;
                     s1 = s\<lparr>transactions :=
                              update_first
                                (\<lambda>tx. tx_type tx = ''processing'' \<and>
                                      data_batchID (tx_data tx) = Some (us_batchID r))
                                (\<lambda>tx. tx\<lparr>tx_data := ProcessingData p2\<rparr>)
                                (transactions s)\<rparr>
                 in case submitTransaction rt e ''processing'' (ProcessingData p2) [] s1 of
                      (Inl err, s2) \<Rightarrow>
                        Some (\<lparr>http_status = 500, http_success = False,
                                http_error = Some ''Failed to update processing status'',
                                http_message = Some (error_message err)\<rparr>, s2)
                    | (Inr txResult, s2) \<Rightarrow>
                        Some (\<lparr>http_status = 200, http_success = True, http_error = None,
                                http_message =
                                  Some (''Processing step '' @ us_step r @ '' marked as '' @ us_status r)\<rparr>,
                              s2))
            | _ \<Rightarrow> None))"
  using assms by (simp add: update_status_def Let_def)

lemma update_first_keeps: "x \<in> set xs \<Longrightarrow> \<not> P x \<Longrightarrow> x \<in> set (update_first P f xs)"
  by (induction xs) auto

lemma earliestOfType_Some:
  assumes "earliestOfType txs ty b = Some d"
  shows "\<exists>tx\<in>set txs. tx_type tx = ty \<and> data_batchID (tx_data tx) = Some b \<and> tx_data tx = d"
proof -
  from assms obtain tx where
    "find (\<lambda>tx. tx_type tx = ty \<and> data_batchID (tx_data tx) = Some b) txs = Some tx" "tx_data tx = d"
    by (auto simp: earliestOfType_def)
  then show ?thesis by (auto simp: find_Some_iff)
qed

lemma set_stage_batchID: "ps_batchID (set_stage q n v) = ps_batchID q"
  by (simp add: set_stage_def)

lemma submitTransaction_valid:
  assumes "valid (validateTransaction rt s (newTransaction rt e ty d en s))"
    and "env_write_error e = None"
  shows "submitTransaction rt e ty d en s =
           (Inr \<lparr>transactionId = env_txId e, status = ''COMMITTED'',
                 hash = calculateHash rt (stringify rt d @ env_txId e), timestamp = env_now e\<rparr>,
            s\<lparr>transactions := transactions s @ [newTransaction rt e ty d en s],
              ledger_file := Some (transactions s @ [newTransaction rt e ty d en s])\<rparr>)"
  using assms by (simp add: submitTransaction_def saveLedger_def newTransaction_def Let_def)

lemma length_update_first: "length (update_first P f xs) = length xs"
  by (induction xs) auto

lemma update_status_success:
  assumes sch: "updateStatusSchema r"
    and prov: "getProvenance rt (env_now e) s (us_batchID r) = Some p"
    and ver: "lab_verified (pb_lab p)"
    and shape: "pb_processor p = None \<or> (\<exists>q. pb_processor p = Some (ProcessingData q))"
    and gate: "us_step r = ''drying'' \<or>
               (us_step r = ''grinding'' \<and> currentStage p ''drying'' = Some ''completed'') \<or>
               (us_step r = ''packaging'' \<and> currentStage p ''grinding'' = Some ''completed'')"
    and wr: "env_write_error e = None"
  shows "\<exists>s'. update_status rt e procID r s =
           Some (\<lparr>http_status = 200, http_success = True, http_error = None,
                   http_message = Some (''Processing step '' @ us_step r @ '' marked as '' @ us_status r)\<rparr>,
                 s') \<and> length (transactions s') = length (transactions s) + 1"
proof -
  let ?b = "us_batchID r"
  let ?P = "\<lambda>tx. tx_type tx = ''processing'' \<and> data_batchID (tx_data tx) = Some ?b"
  from shape obtain q where q: "(case pb_processor p of Some d \<Rightarrow> d
                                  | None \<Rightarrow> ProcessingData (freshProcessing e procID r)) = ProcessingData q"
    by (auto split: option.splits)
  have qb: "ps_batchID q = ?b"
  proof (cases "pb_processor p")
    case None
    with q show ?thesis by (auto simp: freshProcessing_def)
  next
    case (Some d)
    with q have d: "d = ProcessingData q" by simp
    from getProvenance_processor [OF prov] Some
    have "earliestOfType (transactions s) ''processing'' ?b = Some d" by simp
    from earliestOfType_Some [OF this] d show ?thesis by auto
  qed
  from ver obtain t where "pb_lab p = Some (QualityData t)"
    by (cases "pb_lab p" rule: lab_verified.cases) auto
  with getProvenance_lab [OF prov]
  have "earliestOfType (transactions s) ''quality_test'' ?b = Some (QualityData t)" by simp
  from earliestOfType_Some [OF this] obtain tx where
    tx: "tx \<in> set (transactions s)" "tx_type tx = ''quality_test''"
        "data_batchID (tx_data tx) = Some ?b"
    by auto
  have keep: "tx \<in> set (update_first ?P f (transactions s))" for f
    using tx by (intro update_first_keeps) auto
  let ?p2 = "(set_stage q (us_step r) (us_status r))
               \<lparr>ps_lastUpdated := Some (env_now e),
                ps_history :=
                  Some ((case ps_history q of None \<Rightarrow> [] | Some h \<Rightarrow> h) @
                        [\<lparr>h_step = us_step r, h_status = us_status r, h_timestamp = env_now e,
                          h_notes = (case us_notes r of None \<Rightarrow> [] | Some n \<Rightarrow> n)\<rparr>])\<rparr>"
  let ?s1 = "s\<lparr>transactions :=
                update_first ?P (\<lambda>tx. tx\<lparr>tx_data := ProcessingData ?p2\<rparr>) (transactions s)\<rparr>"
  have hist: "ps_history (set_stage q (us_step r) (us_status r)) = ps_history q"
    by (simp add: set_stage_def)
  have "list_ex (\<lambda>tx. tx_type tx = ''quality_test'' \<and>
                       data_batchID (tx_data tx) = data_batchID (ProcessingData ?p2))
          (transactions ?s1)"
    using keep tx(2,3) qb by (auto simp: list_ex_iff set_stage_batchID)
  then have v: "valid (validateTransaction rt ?s1
                  (newTransaction rt e ''processing'' (ProcessingData ?p2) [] ?s1))"
    by (simp add: validateTransaction_def newTransaction_def validateProcessingStep_valid Let_def)
  note sub = submitTransaction_valid [OF v wr]
  have cs: "data_stage (ProcessingData q) name = currentStage p name"
    if "name = ''drying'' \<or> name = ''grinding'' \<or> name = ''packaging''" for name
    using currentStage_processingStep [where p = p and e = e and procID = procID and r = r, OF that] q
    by simp
  from gate have nogate: "\<not> (indexOf stepOrder (us_step r) > 0 \<and>
      data_stage (ProcessingData q) (stepOrder ! nat (indexOf stepOrder (us_step r) - 1))
        \<noteq> Some ''completed'')"
  proof (elim disjE conjE)
    assume "us_step r = ''drying''"
    then show ?thesis by (simp add: indexOf_stepOrder)
  next
    assume "us_step r = ''grinding''" "currentStage p ''drying'' = Some ''completed''"
    then show ?thesis using cs [of "''drying''"] by (simp add: indexOf_stepOrder stepOrder_nth)
  next
    assume "us_step r = ''packaging''" "currentStage p ''grinding'' = Some ''completed''"
    then show ?thesis using cs [of "''grinding''"] by (simp add: indexOf_stepOrder stepOrder_nth)
  qed
  have us: "update_status rt e procID r s =
      (case submitTransaction rt e ''processing'' (ProcessingData ?p2) [] ?s1 of
         (Inl err, s2) \<Rightarrow>
           Some (\<lparr>http_status = 500, http_success = False,
                   http_error = Some ''Failed to update processing status'',
                   http_message = Some (error_message err)\<rparr>, s2)
       | (Inr txResult, s2) \<Rightarrow>
           Some (\<lparr>http_status = 200, http_success = True, http_error = None,
                   http_message =
                     Some (''Processing step '' @ us_step r @ '' marked as '' @ us_status r)\<rparr>,
                 s2))"
    unfolding update_status_gates_passed [OF sch prov ver, of procID] q Let_def
    using nogate by (simp add: hist del: data_stage.simps) blast
  show ?thesis
    unfolding us sub by (simp add: length_update_first)
qed

text \<open>
  C6 (amended). In the handler of \<^verbatim>\<open>POST /api/processor/update-status\<close>, for a request that passes
  the schema for a batch with a verified quality test: an update of \<^verbatim>\<open>grinding\<close> while
  \<^verbatim>\<open>drying\<close> is not \<^verbatim>\<open>completed\<close>, and an update of \<^verbatim>\<open>packaging\<close> while \<^verbatim>\<open>grinding\<close> is not
  \<^verbatim>\<open>completed\<close>, is answered 400 with an error that names the stage and its predecessor,
  and the service state is unchanged; an update answered 200 is of \<^verbatim>\<open>drying\<close> or of a
  stage whose predecessor is \<^verbatim>\<open>completed\<close>; \<^verbatim>\<open>drying\<close> has no such gate; and an update
  that passes the gate is committed whenever the write succeeds.
\<close>

theorem stage_order_gate:
  assumes "updateStatusSchema r"
    and "getProvenance rt (env_now e) s (us_batchID r) = Some p"
    and "lab_verified (pb_lab p)"
  shows "(us_step r = ''grinding'' \<and> currentStage p ''drying'' \<noteq> Some ''completed'' \<longrightarrow>
            update_status rt e procID r s =
              Some (BAD_REQUEST ''Cannot start grinding before completing drying'', s)) \<and>
         (us_step r = ''packaging'' \<and> currentStage p ''grinding'' \<noteq> Some ''completed'' \<longrightarrow>
            update_status rt e procID r s =
              Some (BAD_REQUEST ''Cannot start packaging before completing grinding'', s)) \<and>
         (\<forall>resp s'. update_status rt e procID r s = Some (resp, s') \<and> http_status resp = 200 \<longrightarrow>
            us_step r = ''drying'' \<or>
            (us_step r = ''grinding'' \<and> currentStage p ''drying'' = Some ''completed'') \<or>
            (us_step r = ''packaging'' \<and> currentStage p ''grinding'' = Some ''completed'')) \<and>
         (us_step r = ''drying'' \<longrightarrow> (\<forall>m. update_status rt e procID r s \<noteq> Some (BAD_REQUEST m, s))) \<and>
         ((us_step r = ''drying'' \<or>
           (us_step r = ''grinding'' \<and> currentStage p ''drying'' = Some ''completed'') \<or>
           (us_step r = ''packaging'' \<and> currentStage p ''grinding'' = Some ''completed'')) \<and>
          (pb_processor p = None \<or> (\<exists>q. pb_processor p = Some (ProcessingData q))) \<and>
          env_write_error e = None \<longrightarrow>
            (\<exists>s'. update_status rt e procID r s =
                    Some (\<lparr>http_status = 200, http_success = True, http_error = None,
                            http_message =
                              Some (''Processing step '' @ us_step r @ '' marked as '' @ us_status r)\<rparr>,
                          s') \<and>
                  length (transactions s') = length (transactions s) + 1))"
proof -
  note us = update_status_gates_passed [OF assms, of procID]
  have pos: "(us_step r = ''drying'' \<or>
           (us_step r = ''grinding'' \<and> currentStage p ''drying'' = Some ''completed'') \<or>
           (us_step r = ''packaging'' \<and> currentStage p ''grinding'' = Some ''completed'')) \<and>
          (pb_processor p = None \<or> (\<exists>q. pb_processor p = Some (ProcessingData q))) \<and>
          env_write_error e = None \<longrightarrow>
            (\<exists>s'. update_status rt e procID r s =
                    Some (\<lparr>http_status = 200, http_success = True, http_error = None,
                            http_message =
                              Some (''Processing step '' @ us_step r @ '' marked as '' @ us_status r)\<rparr>,
                          s') \<and>
                  length (transactions s') = length (transactions s) + 1)"
    using update_status_success [OF assms, where procID = procID] by blast
  from assms(1) consider (d) "us_step r = ''drying''" | (g) "us_step r = ''grinding''"
    | (pk) "us_step r = ''packaging''"
    by (auto simp: updateStatusSchema_def)
  then have "(us_step r = ''grinding'' \<and> currentStage p ''drying'' \<noteq> Some ''completed'' \<longrightarrow>
            update_status rt e procID r s =
              Some (BAD_REQUEST ''Cannot start grinding before completing drying'', s)) \<and>
         (us_step r = ''packaging'' \<and> currentStage p ''grinding'' \<noteq> Some ''completed'' \<longrightarrow>
            update_status rt e procID r s =
              Some (BAD_REQUEST ''Cannot start packaging before completing grinding'', s)) \<and>
         (\<forall>resp s'. update_status rt e procID r s = Some (resp, s') \<and> http_status resp = 200 \<longrightarrow>
            us_step r = ''drying'' \<or>
            (us_step r = ''grinding'' \<and> currentStage p ''drying'' = Some ''completed'') \<or>
            (us_step r = ''packaging'' \<and> currentStage p ''grinding'' = Some ''completed'')) \<and>
         (us_step r = ''drying'' \<longrightarrow> (\<forall>m. update_status rt e procID r s \<noteq> Some (BAD_REQUEST m, s)))"
  proof cases
    case d
    then show ?thesis
      by (auto simp: us indexOf_stepOrder Let_def BAD_REQUEST_def
          split: payload.splits prod.splits sum.splits)
  next
    case g
    have cs: "data_stage (case pb_processor p of Some d \<Rightarrow> d
                          | None \<Rightarrow> ProcessingData (freshProcessing e procID r)) ''drying''
              = currentStage p ''drying''"
      by (rule currentStage_processingStep) simp
    from g show ?thesis
      by (auto simp: us indexOf_stepOrder stepOrder_nth cs Let_def BAD_REQUEST_def
          split: payload.splits prod.splits sum.splits)
  next
    case pk
    have cs: "data_stage (case pb_processor p of Some d \<Rightarrow> d
                          | None \<Rightarrow> ProcessingData (freshProcessing e procID r)) ''grinding''
              = currentStage p ''grinding''"
      by (rule currentStage_processingStep) simp
    from pk show ?thesis
      by (auto simp: us indexOf_stepOrder stepOrder_nth cs Let_def BAD_REQUEST_def
          split: payload.splits prod.splits sum.splits)
  qed
  with pos show ?thesis by blast
qed

theorem stage_order_gate_witness:
  "updateStatusSchema grindingRequest \<and>
   lab_verified (pb_lab (the (getProvenance demo_runtime ''2025-01-15T08:30:00Z'' demo_tested ''BATCH_ASH_001''))) \<and>
   update_status demo_runtime (demo_env ''tx_3_g'') ''PROC_1_abc'' grindingRequest demo_tested =
     Some (BAD_REQUEST ''Cannot start grinding before completing drying'', demo_tested) \<and>
   updateStatusSchema dryingRequest \<and>
   (\<exists>s'. update_status demo_runtime (demo_env ''tx_3_g'') ''PROC_1_abc'' dryingRequest demo_tested =
           Some (\<lparr>http_status = 200, http_success = True, http_error = None,
                   http_message = Some ''Processing step drying marked as completed''\<rparr>, s') \<and>
         length (transactions s') = length (transactions demo_tested) + 1)"
proof -
  let ?e = "demo_env ''tx_3_g''"
  let ?p = "the (getProvenance demo_runtime ''2025-01-15T08:30:00Z'' demo_tested ''BATCH_ASH_001'')"
  have sch: "updateStatusSchema grindingRequest" by code_simp
  have sch2: "updateStatusSchema dryingRequest" by code_simp
  have ne: "getProvenance demo_runtime ''2025-01-15T08:30:00Z'' demo_tested ''BATCH_ASH_001'' \<noteq> None"
    by code_simp
  have now: "env_now ?e = ''2025-01-15T08:30:00Z''" "env_write_error ?e = None"
    by (simp_all add: demo_env_def)
  have b: "us_batchID grindingRequest = ''BATCH_ASH_001''" "us_step grindingRequest = ''grinding''"
    "us_batchID dryingRequest = ''BATCH_ASH_001''" "us_step dryingRequest = ''drying''"
    "us_status dryingRequest = ''completed''"
    by (simp_all add: grindingRequest_def dryingRequest_def)
  from ne have prov: "getProvenance demo_runtime (env_now ?e) demo_tested (us_batchID grindingRequest) = Some ?p"
    by (simp add: now b)
  from ne have prov2: "getProvenance demo_runtime (env_now ?e) demo_tested (us_batchID dryingRequest) = Some ?p"
    by (simp add: now b)
  have ver: "lab_verified (pb_lab ?p)" by code_simp
  have cur: "currentStage ?p ''drying'' \<noteq> Some ''completed''" by code_simp
  have none: "pb_processor ?p = None" by code_simp
  from stage_order_gate [OF sch prov ver, of "''PROC_1_abc''"] cur b
  have rej: "update_status demo_runtime ?e ''PROC_1_abc'' grindingRequest demo_tested =
     Some (BAD_REQUEST ''Cannot start grinding before completing drying'', demo_tested)"
    by simp
  from stage_order_gate [OF sch2 prov2 ver, of "''PROC_1_abc''"] none now b
  have acc: "\<exists>s'. update_status demo_runtime ?e ''PROC_1_abc'' dryingRequest demo_tested =
           Some (\<lparr>http_status = 200, http_success = True, http_error = None,
                   http_message = Some ''Processing step drying marked as completed''\<rparr>, s') \<and>
         length (transactions s') = length (transactions demo_tested) + 1"
    by simp
  from sch sch2 ver rej acc show ?thesis by blast
qed

text \<open>
  C6 as stated fails for \<^verbatim>\<open>submitTransaction\<close> itself: \<^verbatim>\<open>validateProcessingStep\<close> only
  looks for a quality test of the batch, so for the tested sample batch, which has no
  processing record yet, a processing transaction with \<^verbatim>\<open>grinding\<close> in progress and
  \<^verbatim>\<open>drying\<close> pending is committed.
\<close>

theorem stage_order_counterexample:
  "earliestOfType (transactions demo_tested) ''processing'' (ps_batchID skippedProcessing) = None \<and>
   ps_drying skippedProcessing = ''pending'' \<and>
   ps_grinding skippedProcessing = ''in-progress'' \<and>
   fst (submitTransaction demo_runtime (demo_env ''tx_3_s'') ''processing''
          (ProcessingData skippedProcessing) [] demo_tested) =
     Inr \<lparr>transactionId = ''tx_3_s'', status = ''COMMITTED'', hash = ''#{}tx_3_s'',
          timestamp = ''2025-01-15T08:30:00Z''\<rparr> \<and>
   tx_data (last (transactions
      (snd (submitTransaction demo_runtime (demo_env ''tx_3_s'') ''processing''
              (ProcessingData skippedProcessing) [] demo_tested)))) =
     ProcessingData skippedProcessing"
  by code_simp

subsection \<open>Processing needs a quality test\<close>










end
